theory Spec2Isabelle
  imports Main "HOL-Library.Word" "HOL-Library.Signed_Division"
begin

unbundle bit_operations_syntax

section \<open>Basic types\<close>

text \<open>
  The C++ integer types are modelled as machine words: \<open>unsigned int\<close> and
  \<open>uint32_t\<close> as \<open>32 word\<close>, \<open>int64_t\<close>, \<open>uint64_t\<close> and \<open>CAmount\<close> as
  \<open>64 word\<close> (signed where the source type is signed: comparisons are \<open><s\<close> and
  \<open>\<le>s\<close>, division is truncating signed division), \<open>uint256\<close> and
  \<open>arith_uint256\<close> as \<open>256 word\<close>. Addition, subtraction and multiplication wrap
  around, as they do on the hardware the node runs on. Block heights (\<open>int\<close>) are
  small and modelled as \<open>int\<close>.
\<close>

type_synonym uint16 = "16 word"
type_synonym uint32 = "32 word"
type_synonym int64 = "64 word"
type_synonym uint64 = "64 word"
type_synonym uint256 = "256 word"
type_synonym CAmount = "64 word"
type_synonym byte = "8 word"
type_synonym CScript = "byte list"

text \<open>
  What the source does outside the defined behaviour of C++ (a null pointer
  dereferenced, a vector read out of range, a failed \<open>assert\<close>, a division by
  zero, a \<open>reserve\<close> beyond \<open>max_size\<close>) is a fault: a function returns
  \<open>Inl\<close> of the fault, or \<open>Inr\<close> of what the C++ function returns together with
  its output parameters.
\<close>

datatype fault =
    NullDereference
  | IndexOutOfRange
  | AssertionFailed
  | DivisionByZero
  | DivisionOverflow
  | LengthError

text \<open>
  Division of two \<open>int64_t\<close>: the quotient is truncated towards zero; a zero
  divisor and \<open>INT64_MIN / -1\<close> trap.
\<close>

definition sdiv64 :: "int64 \<Rightarrow> int64 \<Rightarrow> fault + int64" where
  "sdiv64 a b =
     (if b = 0 then Inl DivisionByZero
      else if a = - (2 ^ 63) \<and> b = - 1 then Inl DivisionOverflow
      else Inr (word_of_int (sint a sdiv sint b)))"

section \<open>Data model\<close>

record CTxOut =
  nValue :: CAmount
  scriptPubKey :: CScript

record CTransaction =
  vout :: "CTxOut list"

text \<open>
  Modelled from the spec: \<open>chain.h\<close> is not part of the sources. A
  \<open>CBlockIndex\<close> is the spec's BlockIndexEntry: the parent link \<open>pprev\<close>, the
  height, and what the accessors \<open>GetBlockTime()\<close> (\<open>block_time: i64\<close>),
  \<open>GetBlockHash()\<close>, \<open>IsProofOfStake()\<close>, \<open>GeneratedStakeModifier()\<close> and
  \<open>GetStakeEntropyBit()\<close> (a single bit) return, with the fields
  \<open>nStakeModifier\<close> and \<open>hashProofOfStake\<close>. Entries are immutable and linked
  by parent pointers only, so an entry is a value that contains its parent, and
  a null pointer is \<open>None\<close>.
\<close>

datatype CBlockIndex = CBlockIndex
  (pprev: "CBlockIndex option")
  (nHeight: int)
  (GetBlockTime: int64)
  (GetBlockHash: uint256)
  (IsProofOfStake: bool)
  (GeneratedStakeModifier: bool)
  (GetStakeEntropyBit: bool)
  (nStakeModifier: uint64)
  (hashProofOfStake: uint256)

text \<open>
  Modelled from the spec: \<open>CChain\<close> (\<open>chain.h\<close>) is not part of the sources. The
  active chain is the vector of its entries by height (the spec's
  \<open>height_at\<close>, \<open>contains\<close>, \<open>next_on_active\<close>): \<open>chainActive[h]\<close> is null
  outside the vector, \<open>Contains\<close> compares the entry at the argument's height
  with the argument, \<open>Next\<close> is the entry one above an entry of the chain.
\<close>

definition CChain_at :: "CBlockIndex list \<Rightarrow> int \<Rightarrow> CBlockIndex option" where
  "CChain_at vChain h =
     (if h < 0 \<or> int (length vChain) \<le> h then None else Some (vChain ! nat h))"

definition CChain_Contains :: "CBlockIndex list \<Rightarrow> CBlockIndex \<Rightarrow> bool" where
  "CChain_Contains vChain pindex = (CChain_at vChain (nHeight pindex) = Some pindex)"

definition CChain_Next :: "CBlockIndex list \<Rightarrow> CBlockIndex \<Rightarrow> CBlockIndex option" where
  "CChain_Next vChain pindex =
     (if CChain_Contains vChain pindex then CChain_at vChain (nHeight pindex + 1) else None)"

record CBlock =
  blockIsProofOfStake :: bool
  vtx :: "CTransaction list"

text \<open>
  A deterministic masternode as \<open>GetBlockTxOuts\<close> reads it: \<open>nOperatorReward\<close>
  (\<open>uint16_t\<close>, in basis points) and the two scripts of \<open>pdmnState\<close>.
\<close>

record CDeterministicMN =
  nOperatorReward :: uint16
  scriptPayout :: CScript
  scriptOperatorPayout :: CScript

text \<open>
  Modelled from the spec: \<open>primitives/block.h\<close> and
  \<open>primitives/transaction.h\<close> are not part of the sources. Of the header
  \<open>blockFrom\<close> the kernel reads \<open>GetBlockTime()\<close> (an \<open>int64_t\<close>, as
  \<open>block_time\<close> is in the spec, which also has the time weight computed from
  it in signed 64-bit arithmetic) and \<open>GetHash()\<close>; of the outpoint its
  index \<open>n\<close>.
\<close>

record CBlockHeader =
  headerGetBlockTime :: int64
  headerGetHash :: uint256

record COutPoint =
  prevout_hash :: uint256
  prevout_n :: uint32

text \<open>The script types of \<open>Solver\<close> (\<open>script/standard.h\<close>).\<close>

datatype txnouttype =
    TX_NONSTANDARD
  | TX_PUBKEY
  | TX_PUBKEYHASH
  | TX_SCRIPTHASH
  | TX_MULTISIG
  | TX_NULL_DATA

type_synonym CKeyID = "byte list"

text \<open>
  Modelled from the spec: \<open>consensus/params.h\<close> is not part of the sources. The
  spec's ConsensusParams, the times in seconds as \<open>int64_t\<close>.
\<close>

record ConsensusParams =
  nModifierInterval :: int64
  nPosTargetSpacing :: int64
  nStakeMinAge :: int64
  nStakeMaxAge :: int64
  nMinimumStakeValue :: CAmount
  nGenerationHeight :: int
  nGenerationAmount :: CAmount
  nSuperblockStartBlock :: int

text \<open>
  The global state and the collaborators of the two source files are fields of
  one environment. For \<open>masternode-payments.cpp\<close>: superblocks, sporks, sync
  state, the coins view, the deterministic masternode list, script
  destinations and \<open>strprintf\<close>. For the kernel: the global
  \<open>nModifierInterval\<close> (an \<open>unsigned int\<close>, set from the macro
  \<open>MODIFIER_INTERVAL\<close>), the constants \<open>MODIFIER_INTERVAL_RATIO\<close> and
  \<open>COIN\<close>, the block index \<open>mapBlockIndex\<close>, the hash functions \<open>Hash\<close>
  (double SHA-256) and \<open>Hash160\<close>, and the script \<open>Solver\<close>, which returns
  its \<open>bool\<close> with \<open>whichType\<close> and \<open>vSolutions\<close>. \<open>chainActive\<close> is
  shared.
\<close>

record Env =
  Params :: ConsensusParams
  nModifierIntervalGlobal :: uint32
  MODIFIER_INTERVAL_RATIO :: int
  COIN :: CAmount
  mapBlockIndex :: "uint256 \<Rightarrow> CBlockIndex option"
  Hash :: "byte list \<Rightarrow> uint256"
  Hash160 :: "byte list \<Rightarrow> CKeyID"
  Solver :: "CScript \<Rightarrow> bool \<times> txnouttype \<times> byte list list"
  SporkAddresses :: "string list"
  GetScriptForDestination :: "string \<Rightarrow> CScript"
  fLiteMode :: bool
  masternodeSync_IsSynced :: bool
  IsSporkActive_SUPERBLOCKS_ENABLED :: bool
  CSuperblock_GetPaymentsLimit :: "int \<Rightarrow> CAmount"
  CSuperblock_IsValidBlockHeight :: "int \<Rightarrow> bool"
  IsSuperblockTriggered :: "int \<Rightarrow> bool"
  CSuperblockManager_IsValid :: "CTransaction \<Rightarrow> int \<Rightarrow> CAmount \<Rightarrow> bool"
  GetValueIn :: "CTransaction \<Rightarrow> CAmount"
  GetValueOut :: "CTransaction \<Rightarrow> CAmount"
  GetMasternodePayment :: "int \<Rightarrow> CAmount \<Rightarrow> CAmount"
  chainActive :: "CBlockIndex list"
  GetMNPayee :: "uint256 \<Rightarrow> CDeterministicMN option"
  ExtractDestination :: "CScript \<Rightarrow> bool"
  strprintf :: "string \<Rightarrow> int list \<Rightarrow> string"

section \<open>Masternode payments\<close>

subsection \<open>IsBlockValueValid\<close>

text \<open>
  The result is the returned \<open>bool\<close> with \<open>strErrorRet\<close>. \<open>block.vtx[1]\<close> and
  \<open>block.vtx[n]\<close> are read before any gate.
\<close>

definition IsBlockValueValid ::
  "Env \<Rightarrow> CBlock \<Rightarrow> int \<Rightarrow> CAmount \<Rightarrow> fault + (bool \<times> string)" where
  "IsBlockValueValid env block nBlockHeight blockReward =
     (let n = (if blockIsProofOfStake block then 1 else 0 :: nat) in
      if blockIsProofOfStake block \<and> length (vtx block) \<le> 1 then Inl IndexOutOfRange
      else if length (vtx block) \<le> n then Inl IndexOutOfRange
      else
        let nValueIn = (if blockIsProofOfStake block
                        then 0 + GetValueIn env (vtx block ! 1) else 0);
            blockValue = GetValueOut env (vtx block ! n) - nValueIn;
            isBlockRewardValueMet = (blockValue \<le>s blockReward);
            nSuperblockMaxValue = blockReward + CSuperblock_GetPaymentsLimit env nBlockHeight;
            isSuperblockMaxValueMet = (blockValue \<le>s nSuperblockMaxValue);
            isGenerationHeight = (nBlockHeight = nGenerationHeight (Params env))
        in
          if isGenerationHeight then Inr (True, '''')
          else if \<not> CSuperblock_IsValidBlockHeight env nBlockHeight then
            Inr (isBlockRewardValueMet,
                 if \<not> isBlockRewardValueMet
                 then strprintf env
                   ''coinbase pays too much at height %d (actual=%d vs limit=%d), exceeded block reward, only regular blocks are allowed at this height''
                   [nBlockHeight, sint blockValue, sint blockReward]
                 else '''')
          else if \<not> isSuperblockMaxValueMet then
            Inr (False,
                 strprintf env
                   ''coinbase pays too much at height %d (actual=%d vs limit=%d), exceeded superblock max value''
                   [nBlockHeight, sint blockValue, sint nSuperblockMaxValue])
          else if \<not> masternodeSync_IsSynced env \<or> fLiteMode env then Inr (True, '''')
          else if \<not> IsSporkActive_SUPERBLOCKS_ENABLED env then
            Inr (isBlockRewardValueMet,
                 if \<not> isBlockRewardValueMet
                 then strprintf env
                   ''coinbase pays too much at height %d (actual=%d vs limit=%d), exceeded block reward, superblocks are disabled''
                   [nBlockHeight, sint blockValue, sint blockReward]
                 else '''')
          else if \<not> IsSuperblockTriggered env nBlockHeight then
            Inr (isBlockRewardValueMet,
                 if \<not> isBlockRewardValueMet
                 then strprintf env
                   ''coinbase pays too much at height %d (actual=%d vs limit=%d), exceeded block reward, no triggered superblock detected''
                   [nBlockHeight, sint blockValue, sint blockReward]
                 else '''')
          else if \<not> CSuperblockManager_IsValid env (vtx block ! n) nBlockHeight blockReward then
            Inr (False,
                 strprintf env ''invalid superblock detected at height %d'' [nBlockHeight])
          else Inr (True, ''''))"

subsection \<open>GetBlockTxOuts\<close>

text \<open>
  The result is the returned \<open>bool\<close> with \<open>voutMasternodePaymentsRet\<close>, which
  is cleared first. \<open>chainActive[nBlockHeight - 1]\<close> is dereferenced without a
  check. The product \<open>masternodeReward * nOperatorReward\<close> is an \<open>int64_t\<close>.
\<close>

definition GetBlockTxOuts ::
  "Env \<Rightarrow> int \<Rightarrow> CAmount \<Rightarrow> fault + (bool \<times> CTxOut list)" where
  "GetBlockTxOuts env nBlockHeight blockReward =
     (let masternodeReward = GetMasternodePayment env nBlockHeight blockReward in
      case CChain_at (chainActive env) (nBlockHeight - 1) of
        None \<Rightarrow> Inl NullDereference
      | Some pindex \<Rightarrow>
          (case GetMNPayee env (GetBlockHash pindex) of
             None \<Rightarrow> Inr (False, [])
           | Some dmnPayee \<Rightarrow>
               (case (if nOperatorReward dmnPayee \<noteq> 0 \<and> scriptOperatorPayout dmnPayee \<noteq> []
                      then sdiv64 (masternodeReward * ucast (nOperatorReward dmnPayee)) 10000
                      else Inr 0) of
                  Inl f \<Rightarrow> Inl f
                | Inr operatorReward \<Rightarrow>
                    (let masternodeReward' = masternodeReward - operatorReward in
                     Inr (True,
                          (if 0 <s masternodeReward'
                           then [\<lparr>nValue = masternodeReward', scriptPubKey = scriptPayout dmnPayee\<rparr>]
                           else []) @
                          (if 0 <s operatorReward
                           then [\<lparr>nValue = operatorReward,
                                   scriptPubKey = scriptOperatorPayout dmnPayee\<rparr>]
                           else []))))))"

subsection \<open>IsTransactionValid\<close>

text \<open>The inner loop: is \<open>txout\<close> equal to one of the outputs of \<open>txNew\<close>?\<close>

fun found_txout :: "CTxOut \<Rightarrow> CTxOut list \<Rightarrow> bool" where
  "found_txout txout [] = False"
| "found_txout txout (txout2 # rest) =
     (if txout = txout2 then True else found_txout txout rest)"

text \<open>
  The outer loop over the expected outputs. At the first one that is not found
  the source asserts that its script has a destination, and returns false.
\<close>

fun all_payments_found :: "Env \<Rightarrow> CTxOut list \<Rightarrow> CTxOut list \<Rightarrow> fault + bool" where
  "all_payments_found env [] txvout = Inr True"
| "all_payments_found env (txout # rest) txvout =
     (if \<not> found_txout txout txvout then
        (if \<not> ExtractDestination env (scriptPubKey txout) then Inl AssertionFailed
         else Inr False)
      else all_payments_found env rest txvout)"

definition IsTransactionValid ::
  "Env \<Rightarrow> CTransaction \<Rightarrow> int \<Rightarrow> CAmount \<Rightarrow> fault + bool" where
  "IsTransactionValid env txNew nBlockHeight blockReward =
     (case GetBlockTxOuts env nBlockHeight blockReward of
        Inl f \<Rightarrow> Inl f
      | Inr (ok, voutMasternodePayments) \<Rightarrow>
          if \<not> ok then Inr True
          else all_payments_found env voutMasternodePayments (vout txNew))"

subsection \<open>IsBlockPayeeValid\<close>

text \<open>The loop over \<open>txNew.vout\<close> at the generation height.\<close>

fun pays_generation :: "CAmount \<Rightarrow> CScript \<Rightarrow> CTxOut list \<Rightarrow> bool" where
  "pays_generation amount payeeAddr [] = False"
| "pays_generation amount payeeAddr (tx # rest) =
     (if nValue tx = amount \<and> scriptPubKey tx = payeeAddr then True
      else pays_generation amount payeeAddr rest)"

definition IsBlockPayeeValid ::
  "Env \<Rightarrow> CTransaction \<Rightarrow> int \<Rightarrow> CAmount \<Rightarrow> fault + bool" where
  "IsBlockPayeeValid env txNew nBlockHeight blockReward =
     (if nBlockHeight = nGenerationHeight (Params env) then
        (case SporkAddresses env of
           [] \<Rightarrow> Inl IndexOutOfRange
         | address # _ \<Rightarrow>
             Inr (pays_generation (nGenerationAmount (Params env))
                    (GetScriptForDestination env address) (vout txNew)))
      else if fLiteMode env then Inr True
      else if nBlockHeight < nSuperblockStartBlock (Params env) then Inr True
      else if IsSporkActive_SUPERBLOCKS_ENABLED env \<and> IsSuperblockTriggered env nBlockHeight
              \<and> \<not> CSuperblockManager_IsValid env txNew nBlockHeight blockReward
        then Inr False
      else IsTransactionValid env txNew nBlockHeight blockReward)"

section \<open>Kernel\<close>

subsection \<open>Serialization\<close>

text \<open>
  Modelled from the spec: \<open>serialize.h\<close> is not part of the sources. A value
  written to a \<open>CDataStream\<close> is serialized little-endian, in as many bytes as
  its type has: 4 for \<open>unsigned int\<close>, 8 for \<open>uint64_t\<close> and \<open>int64_t\<close>, 32 for
  \<open>uint256\<close>.
\<close>

definition le_bytes :: "nat \<Rightarrow> 'a::len word \<Rightarrow> byte list" where
  "le_bytes k w = map (\<lambda>i. ucast (drop_bit (8 * i) w)) [0..<k]"

definition ser_uint32 :: "uint32 \<Rightarrow> byte list" where
  "ser_uint32 w = le_bytes 4 w"

definition ser_uint64 :: "uint64 \<Rightarrow> byte list" where
  "ser_uint64 w = le_bytes 8 w"

definition ser_int64 :: "int64 \<Rightarrow> byte list" where
  "ser_int64 w = le_bytes 8 w"

definition ser_uint256 :: "uint256 \<Rightarrow> byte list" where
  "ser_uint256 w = le_bytes 32 w"

subsection \<open>GetLastStakeModifier\<close>

text \<open>
  The loop \<open>while (pindex && pindex->pprev && !pindex->GeneratedStakeModifier())\<close>
  from a non-null entry: where it stops.
\<close>

function last_modifier_walk :: "CBlockIndex \<Rightarrow> CBlockIndex" where
  "last_modifier_walk pindex =
     (case pprev pindex of
        None \<Rightarrow> pindex
      | Some parent \<Rightarrow>
          if \<not> GeneratedStakeModifier pindex then last_modifier_walk parent else pindex)"
  by pat_completeness auto
termination
  by (relation "measure size") (auto, case_tac pindex, simp)

text \<open>
  The result is the returned \<open>bool\<close> with the output parameters
  \<open>nStakeModifier\<close> and \<open>nModifierTime\<close>, which keep the caller's values where
  the source does not assign them.
\<close>

definition GetLastStakeModifier ::
  "CBlockIndex option \<Rightarrow> uint64 \<Rightarrow> int64 \<Rightarrow> bool \<times> uint64 \<times> int64" where
  "GetLastStakeModifier pindex nStakeModifier0 nModifierTime0 =
     (case pindex of
        None \<Rightarrow> (False, nStakeModifier0, nModifierTime0)
      | Some p \<Rightarrow>
          (let pindex' = last_modifier_walk p in
           if \<not> GeneratedStakeModifier pindex' then (True, 0, nModifierTime0)
           else (True, nStakeModifier pindex', GetBlockTime pindex')))"

subsection \<open>Selection interval\<close>

text \<open>
  \<open>nModifierInterval * 63 / (63 + ((63 - nSection) * (MODIFIER_INTERVAL_RATIO - 1)))\<close>:
  the divisor is an \<open>int\<close>, converted to \<open>unsigned int\<close> for the division by
  the \<open>unsigned int\<close> product; the quotient is widened to \<open>int64_t\<close>.
\<close>

definition GetStakeModifierSelectionIntervalSection :: "Env \<Rightarrow> int \<Rightarrow> fault + int64" where
  "GetStakeModifierSelectionIntervalSection env nSection =
     (if \<not> (0 \<le> nSection \<and> nSection < 64) then Inl AssertionFailed
      else
        let divisor = (word_of_int (63 + ((63 - nSection) * (MODIFIER_INTERVAL_RATIO env - 1)))
                        :: uint32)
        in if divisor = 0 then Inl DivisionByZero
           else Inr (ucast ((nModifierIntervalGlobal env * 63) div divisor)))"

fun selection_interval_loop :: "Env \<Rightarrow> int list \<Rightarrow> int64 \<Rightarrow> fault + int64" where
  "selection_interval_loop env [] nSelectionInterval = Inr nSelectionInterval"
| "selection_interval_loop env (nSection # rest) nSelectionInterval =
     (case GetStakeModifierSelectionIntervalSection env nSection of
        Inl f \<Rightarrow> Inl f
      | Inr a \<Rightarrow> selection_interval_loop env rest (nSelectionInterval + a))"

definition GetStakeModifierSelectionInterval :: "Env \<Rightarrow> fault + int64" where
  "GetStakeModifierSelectionInterval env = selection_interval_loop env (map int [0..<64]) 0"

subsection \<open>SelectBlockFromCandidates\<close>

text \<open>
  The selection hash of a candidate: the hash of its proof hash and the
  previous modifier, shifted right by 32 bits for a proof-of-stake block.
\<close>

definition raw_selection_hash :: "Env \<Rightarrow> uint64 \<Rightarrow> CBlockIndex \<Rightarrow> uint256" where
  "raw_selection_hash env nStakeModifierPrev pindex =
     (let hashProof = (if IsProofOfStake pindex then hashProofOfStake pindex
                       else GetBlockHash pindex)
      in Hash env (ser_uint256 hashProof @ ser_uint64 nStakeModifierPrev))"

definition selection_hash :: "Env \<Rightarrow> uint64 \<Rightarrow> CBlockIndex \<Rightarrow> uint256" where
  "selection_hash env nStakeModifierPrev pindex =
     (let hashSelection = raw_selection_hash env nStakeModifierPrev pindex
      in if IsProofOfStake pindex then drop_bit 32 hashSelection else hashSelection)"

text \<open>
  The loop over \<open>vSortedByTimestamp\<close>. The state is \<open>fSelected\<close>, \<open>hashBest\<close>
  and \<open>*pindexSelected\<close>; the result is the returned \<open>bool\<close> (false when a
  candidate is not in \<open>mapBlockIndex\<close>) with \<open>*pindexSelected\<close>.
  \<open>mapSelectedBlocks\<close> is read through its keys only.
\<close>

fun select_loop ::
  "Env \<Rightarrow> (uint256 \<Rightarrow> CBlockIndex option) \<Rightarrow> int64 \<Rightarrow> uint64 \<Rightarrow>
   (int64 \<times> uint256) list \<Rightarrow> bool \<times> uint256 \<times> CBlockIndex option \<Rightarrow>
   bool \<times> CBlockIndex option" where
  "select_loop env mapSelectedBlocks nSelectionIntervalStop nStakeModifierPrev []
     (fSelected, hashBest, pindexSelected) = (fSelected, pindexSelected)"
| "select_loop env mapSelectedBlocks nSelectionIntervalStop nStakeModifierPrev (item # rest)
     (fSelected, hashBest, pindexSelected) =
     (case mapBlockIndex env (snd item) of
        None \<Rightarrow> (False, pindexSelected)
      | Some pindex \<Rightarrow>
          if fSelected \<and> nSelectionIntervalStop <s GetBlockTime pindex
            then (fSelected, pindexSelected)
          else if mapSelectedBlocks (GetBlockHash pindex) \<noteq> None
            then select_loop env mapSelectedBlocks nSelectionIntervalStop nStakeModifierPrev rest
                   (fSelected, hashBest, pindexSelected)
          else
            let hashSelection = selection_hash env nStakeModifierPrev pindex in
            if fSelected \<and> hashSelection < hashBest
              then select_loop env mapSelectedBlocks nSelectionIntervalStop nStakeModifierPrev
                     rest (fSelected, hashSelection, Some pindex)
            else if \<not> fSelected
              then select_loop env mapSelectedBlocks nSelectionIntervalStop nStakeModifierPrev
                     rest (True, hashSelection, Some pindex)
            else select_loop env mapSelectedBlocks nSelectionIntervalStop nStakeModifierPrev
                   rest (fSelected, hashBest, pindexSelected))"

definition SelectBlockFromCandidates ::
  "Env \<Rightarrow> (int64 \<times> uint256) list \<Rightarrow> (uint256 \<Rightarrow> CBlockIndex option) \<Rightarrow> int64 \<Rightarrow> uint64 \<Rightarrow>
   bool \<times> CBlockIndex option" where
  "SelectBlockFromCandidates env vSortedByTimestamp mapSelectedBlocks nSelectionIntervalStop
     nStakeModifierPrev =
     select_loop env mapSelectedBlocks nSelectionIntervalStop nStakeModifierPrev
       vSortedByTimestamp (False, 0, None)"

subsection \<open>ComputeNextStakeModifier\<close>

text \<open>
  The loop \<open>while (pindex && pindex->GetBlockTime() >= nSelectionIntervalStart)\<close>
  from a non-null entry: the pairs in the order they are pushed.
\<close>

function gather_candidates :: "int64 \<Rightarrow> CBlockIndex \<Rightarrow> (int64 \<times> uint256) list" where
  "gather_candidates nSelectionIntervalStart pindex =
     (if nSelectionIntervalStart \<le>s GetBlockTime pindex then
        (GetBlockTime pindex, GetBlockHash pindex) #
          (case pprev pindex of
             None \<Rightarrow> []
           | Some parent \<Rightarrow> gather_candidates nSelectionIntervalStart parent)
      else [])"
  by pat_completeness auto
termination
  by (relation "measure (\<lambda>(s, p). size p)") (auto, case_tac pindex, simp)

text \<open>
  Modelled from the spec: \<open>uint256.h\<close> is not part of the sources. The vector
  is sorted by \<open>(block_time, block_hash)\<close> in ascending order, the times as
  \<open>int64_t\<close>, the hashes as their raw bytes. \<open>std::sort\<close> with the order of
  \<open>std::pair\<close> is an insertion into a sorted list, repeated.
\<close>

fun raw_bytes_less :: "byte list \<Rightarrow> byte list \<Rightarrow> bool" where
  "raw_bytes_less (a # as) (b # bs) = (a < b \<or> (a = b \<and> raw_bytes_less as bs))"
| "raw_bytes_less _ _ = False"

definition uint256_less :: "uint256 \<Rightarrow> uint256 \<Rightarrow> bool" where
  "uint256_less a b = raw_bytes_less (ser_uint256 a) (ser_uint256 b)"

definition pair_less :: "int64 \<times> uint256 \<Rightarrow> int64 \<times> uint256 \<Rightarrow> bool" where
  "pair_less x y = (fst x <s fst y \<or> (\<not> fst y <s fst x \<and> uint256_less (snd x) (snd y)))"

fun sort_insert :: "int64 \<times> uint256 \<Rightarrow> (int64 \<times> uint256) list \<Rightarrow> (int64 \<times> uint256) list" where
  "sort_insert x [] = [x]"
| "sort_insert x (y # ys) = (if pair_less y x then y # sort_insert x ys else x # y # ys)"

definition std_sort :: "(int64 \<times> uint256) list \<Rightarrow> (int64 \<times> uint256) list" where
  "std_sort xs = foldr sort_insert xs []"

text \<open>
  The rounds of the selection. The state is \<open>nStakeModifierNew\<close>,
  \<open>nSelectionIntervalStop\<close> and \<open>mapSelectedBlocks\<close>; the result is false when
  a round selects no block, or true with \<open>nStakeModifierNew\<close>. A selected
  block is not a key of \<open>mapSelectedBlocks\<close>, so \<open>insert\<close> adds it.
\<close>

fun modifier_rounds ::
  "Env \<Rightarrow> (int64 \<times> uint256) list \<Rightarrow> uint64 \<Rightarrow> nat list \<Rightarrow>
   uint64 \<times> int64 \<times> (uint256 \<Rightarrow> CBlockIndex option) \<Rightarrow> fault + (bool \<times> uint64)" where
  "modifier_rounds env vSortedByTimestamp nStakeModifier' []
     (nStakeModifierNew, nSelectionIntervalStop, mapSelectedBlocks) =
     Inr (True, nStakeModifierNew)"
| "modifier_rounds env vSortedByTimestamp nStakeModifier' (nRound # rest)
     (nStakeModifierNew, nSelectionIntervalStop, mapSelectedBlocks) =
     (case GetStakeModifierSelectionIntervalSection env (int nRound) of
        Inl f \<Rightarrow> Inl f
      | Inr a \<Rightarrow>
          (let nSelectionIntervalStop' = nSelectionIntervalStop + a in
           case SelectBlockFromCandidates env vSortedByTimestamp mapSelectedBlocks
                  nSelectionIntervalStop' nStakeModifier' of
             (False, _) \<Rightarrow> Inr (False, nStakeModifierNew)
           | (True, None) \<Rightarrow> Inl NullDereference
           | (True, Some pindex) \<Rightarrow>
               modifier_rounds env vSortedByTimestamp nStakeModifier' rest
                 (nStakeModifierNew OR
                    push_bit nRound (if GetStakeEntropyBit pindex then 1 else 0),
                  nSelectionIntervalStop',
                  if mapSelectedBlocks (GetBlockHash pindex) = None
                  then mapSelectedBlocks(GetBlockHash pindex \<mapsto> pindex)
                  else mapSelectedBlocks)))"

text \<open>
  The source from \<open>// Sort candidate blocks by timestamp\<close> to its end: a new
  modifier is computed from the candidates before \<open>pindexPrev\<close>, with the
  last modifier \<open>nStakeModifier\<close> in the selection hashes. The result is the
  returned \<open>bool\<close> with \<open>nStakeModifier\<close> and \<open>fGeneratedStakeModifier\<close>.
  \<open>reserve\<close> throws for a negative count. The height of the first candidate
  and the selection map are computed for the log only.
\<close>

definition new_stake_modifier ::
  "Env \<Rightarrow> CBlockIndex \<Rightarrow> uint64 \<Rightarrow> fault + (bool \<times> uint64 \<times> bool)" where
  "new_stake_modifier env pindexPrev nStakeModifier' =
     (case sdiv64 (64 * nModifierInterval (Params env)) (nPosTargetSpacing (Params env)) of
        Inl f \<Rightarrow> Inl f
      | Inr nReserve \<Rightarrow>
          if nReserve <s 0 then Inl LengthError
          else
            (case GetStakeModifierSelectionInterval env of
               Inl f \<Rightarrow> Inl f
             | Inr nSelectionInterval \<Rightarrow>
                 (case sdiv64 (GetBlockTime pindexPrev) (nModifierInterval (Params env)) of
                    Inl f \<Rightarrow> Inl f
                  | Inr q \<Rightarrow>
                      (let nSelectionIntervalStart =
                             q * nModifierInterval (Params env) - nSelectionInterval;
                           vSortedByTimestamp =
                             std_sort (rev (gather_candidates nSelectionIntervalStart pindexPrev))
                       in case modifier_rounds env vSortedByTimestamp nStakeModifier'
                                 [0..<min 64 (length vSortedByTimestamp)]
                                 (0, nSelectionIntervalStart, Map.empty) of
                            Inl f \<Rightarrow> Inl f
                          | Inr (False, _) \<Rightarrow> Inr (False, nStakeModifier', False)
                          | Inr (True, nStakeModifierNew) \<Rightarrow>
                              Inr (True, nStakeModifierNew, True)))))"

definition ComputeNextStakeModifier ::
  "Env \<Rightarrow> CBlockIndex \<Rightarrow> fault + (bool \<times> uint64 \<times> bool)" where
  "ComputeNextStakeModifier env pindexCurrent =
     (case pprev pindexCurrent of
        None \<Rightarrow> Inr (True, 0, True)
      | Some pindexPrev \<Rightarrow>
          (case GetLastStakeModifier (Some pindexPrev) 0 0 of
             (ok, nStakeModifier', nModifierTime) \<Rightarrow>
               if \<not> ok then Inr (False, nStakeModifier', False)
               else
                 (case sdiv64 nModifierTime (nModifierInterval (Params env)) of
                    Inl f \<Rightarrow> Inl f
                  | Inr qLast \<Rightarrow>
                      (case sdiv64 (GetBlockTime pindexPrev) (nModifierInterval (Params env)) of
                         Inl f \<Rightarrow> Inl f
                       | Inr qPrev \<Rightarrow>
                           if qPrev \<le>s qLast then Inr (True, nStakeModifier', False)
                           else new_stake_modifier env pindexPrev nStakeModifier'))))"

subsection \<open>GetKernelStakeModifier\<close>

text \<open>
  The loop that fills \<open>tmpChain\<close>, at most \<open>nDepth\<close> times:
  \<open>chainActive.Contains(it)\<close> dereferences \<open>it\<close>.
\<close>

fun build_tmpChain :: "CBlockIndex list \<Rightarrow> nat \<Rightarrow> CBlockIndex option \<Rightarrow> fault + CBlockIndex list" where
  "build_tmpChain vChain 0 it = Inr []"
| "build_tmpChain vChain (Suc k) None = Inl NullDereference"
| "build_tmpChain vChain (Suc k) (Some p) =
     (if CChain_Contains vChain p then Inr []
      else (case build_tmpChain vChain k (pprev p) of
              Inl f \<Rightarrow> Inl f
            | Inr pushed \<Rightarrow> Inr (p # pushed)))"

text \<open>
  The loop that looks for the modifier later by a selection interval. The
  state is \<open>pindex\<close>, \<open>n\<close>, \<open>nStakeModifierHeight\<close> and \<open>nStakeModifierTime\<close>;
  the result is false when the best block is reached (both branches of the
  source return false and differ in the log), or true with the state. On a
  malformed active chain the loop need not end: the result is then \<open>None\<close>.
\<close>

partial_function (option) kernel_modifier_loop ::
  "Env \<Rightarrow> int64 \<Rightarrow> CBlockIndex \<Rightarrow> CBlockIndex list \<Rightarrow>
   CBlockIndex \<times> nat \<times> int \<times> int64 \<Rightarrow> (bool \<times> CBlockIndex \<times> int \<times> int64) option" where
  "kernel_modifier_loop env nStakeModifierSelectionInterval pindexFrom tmpChain st =
     (case st of (pindex, n, nStakeModifierHeight, nStakeModifierTime) \<Rightarrow>
        if nStakeModifierTime <s GetBlockTime pindexFrom + nStakeModifierSelectionInterval then
          (case (if tmpChain \<noteq> [] \<and> nHeight (hd tmpChain) - 1 \<le> nHeight pindex
                 then (if n < length tmpChain then Some (tmpChain ! n) else None, Suc n)
                 else (CChain_Next (chainActive env) pindex, n)) of
             (None, n') \<Rightarrow> Some (False, pindex, nStakeModifierHeight, nStakeModifierTime)
           | (Some pindex', n') \<Rightarrow>
               if GeneratedStakeModifier pindex'
               then kernel_modifier_loop env nStakeModifierSelectionInterval pindexFrom tmpChain
                      (pindex', n', nHeight pindex', GetBlockTime pindex')
               else kernel_modifier_loop env nStakeModifierSelectionInterval pindexFrom tmpChain
                      (pindex', n', nStakeModifierHeight, nStakeModifierTime))
        else Some (True, pindex, nStakeModifierHeight, nStakeModifierTime))"

declare kernel_modifier_loop.simps [code]

text \<open>
  The result is the returned \<open>bool\<close> with \<open>nStakeModifier\<close>,
  \<open>nStakeModifierHeight\<close> and \<open>nStakeModifierTime\<close>. \<open>reserve(nDepth)\<close> throws
  for a negative \<open>nDepth\<close>.
\<close>

definition GetKernelStakeModifier ::
  "Env \<Rightarrow> CBlockIndex \<Rightarrow> uint256 \<Rightarrow> uint32 \<Rightarrow> int \<Rightarrow> int64 \<Rightarrow> bool \<Rightarrow>
   (fault + (bool \<times> uint64 \<times> int \<times> int64)) option" where
  "GetKernelStakeModifier env pindexPrev hashBlockFrom nTimeTx nStakeModifierHeight0
     nStakeModifierTime0 fPrintProofOfStake =
     (case mapBlockIndex env hashBlockFrom of
        None \<Rightarrow> Some (Inr (False, 0, nStakeModifierHeight0, nStakeModifierTime0))
      | Some pindexFrom \<Rightarrow>
          (case GetStakeModifierSelectionInterval env of
             Inl f \<Rightarrow> Some (Inl f)
           | Inr nStakeModifierSelectionInterval \<Rightarrow>
               (let nDepth = nHeight pindexPrev - (nHeight pindexFrom - 1) in
                if nDepth < 0 then Some (Inl LengthError)
                else
                  (case build_tmpChain (chainActive env) (nat nDepth) (Some pindexPrev) of
                     Inl f \<Rightarrow> Some (Inl f)
                   | Inr pushed \<Rightarrow>
                       (case kernel_modifier_loop env nStakeModifierSelectionInterval pindexFrom
                               (rev pushed)
                               (pindexFrom, 0, nHeight pindexFrom, GetBlockTime pindexFrom) of
                          None \<Rightarrow> None
                        | Some (False, pindex, h, t) \<Rightarrow> Some (Inr (False, 0, h, t))
                        | Some (True, pindex, h, t) \<Rightarrow>
                            Some (Inr (True, nStakeModifier pindex, h, t)))))))"

subsection \<open>CheckStakeKernelHash\<close>

text \<open>
  Modelled from the spec: \<open>arith_uint256.cpp\<close> is not part of the sources.
  \<open>SetCompact\<close> is the standard expansion of a compact target: the high byte
  is a size in bytes, the low 23 bits a mantissa, shifted to that size.
\<close>

definition SetCompact :: "uint32 \<Rightarrow> uint256" where
  "SetCompact nCompact =
     (let nSize = unat (drop_bit 24 nCompact);
          nWord = nCompact AND 0x007fffff
      in if nSize \<le> 3 then ucast (drop_bit (8 * (3 - nSize)) nWord)
         else push_bit (8 * (nSize - 3)) (ucast nWord))"

text \<open>\<open>nValueIn * nTimeWeight / COIN / 200\<close>, in \<open>int64_t\<close>.\<close>

definition coin_day_weight :: "Env \<Rightarrow> CAmount \<Rightarrow> int64 \<Rightarrow> fault + int64" where
  "coin_day_weight env nValueIn nTimeWeight =
     (case sdiv64 (nValueIn * nTimeWeight) (COIN env) of
        Inl f \<Rightarrow> Inl f
      | Inr perCoin \<Rightarrow> sdiv64 perCoin 200)"

text \<open>
  The stream \<open>ss\<close> that is hashed: \<open>nStakeModifier\<close> is a \<open>uint64_t\<close>,
  \<open>nTimeBlockFrom\<close>, \<open>nTxPrevOffset\<close>, \<open>prevout.n\<close> and \<open>nTimeTx\<close> are
  \<open>unsigned int\<close>, and \<open>txPrevTime\<close>, declared \<open>auto\<close>, has the type of
  \<open>blockFrom.GetBlockTime()\<close>.
\<close>

definition kernel_stream ::
  "uint64 \<Rightarrow> uint32 \<Rightarrow> uint32 \<Rightarrow> int64 \<Rightarrow> uint32 \<Rightarrow> uint32 \<Rightarrow> byte list" where
  "kernel_stream nStakeModifier' nTimeBlockFrom nTxPrevOffset txPrevTime prevoutN nTimeTx =
     ser_uint64 nStakeModifier' @ ser_uint32 nTimeBlockFrom @ ser_uint32 nTxPrevOffset @
     ser_int64 txPrevTime @ ser_uint32 prevoutN @ ser_uint32 nTimeTx"

text \<open>
  The result is the returned \<open>bool\<close> with \<open>hashProofOfStake\<close>, which keeps the
  caller's value until it is assigned. \<open>fMinting\<close> and \<open>fValidate\<close> are not
  read.
\<close>

definition CheckStakeKernelHash ::
  "Env \<Rightarrow> uint32 \<Rightarrow> CBlockIndex \<Rightarrow> CBlockHeader \<Rightarrow> uint32 \<Rightarrow> CTransaction \<Rightarrow> COutPoint \<Rightarrow>
   uint32 \<Rightarrow> uint256 \<Rightarrow> (fault + (bool \<times> uint256)) option" where
  "CheckStakeKernelHash env nBits pindexPrev blockFrom nTxPrevOffset txPrev prevout nTimeTx
     hashProofOfStake0 =
     (let txPrevTime = headerGetBlockTime blockFrom in
      if ucast nTimeTx <s txPrevTime then Some (Inr (False, hashProofOfStake0))
      else
        let nTimeBlockFrom = (ucast (headerGetBlockTime blockFrom) :: uint32) in
        if ucast nTimeTx <s ucast nTimeBlockFrom + nStakeMinAge (Params env)
          then Some (Inr (False, hashProofOfStake0))
        else
          let bnTargetPerCoinDay = SetCompact nBits in
          if length (vout txPrev) \<le> unat (prevout_n prevout) then Some (Inl IndexOutOfRange)
          else
            let nValueIn = nValue (vout txPrev ! unat (prevout_n prevout)) in
            if nValueIn <s nMinimumStakeValue (Params env)
              then Some (Inr (False, hashProofOfStake0))
            else
              let a = ucast nTimeTx - txPrevTime;
                  b = nStakeMaxAge (Params env) - nStakeMinAge (Params env);
                  nTimeWeight = (if b <s a then b else a)
              in case coin_day_weight env nValueIn nTimeWeight of
                   Inl f \<Rightarrow> Some (Inl f)
                 | Inr w \<Rightarrow>
                     (let bnCoinDayWeight = (ucast w :: uint256) in
                      case GetKernelStakeModifier env pindexPrev (headerGetHash blockFrom)
                             nTimeTx 0 0 False of
                        None \<Rightarrow> None
                      | Some (Inl f) \<Rightarrow> Some (Inl f)
                      | Some (Inr (ok, nStakeModifier', nStakeModifierHeight,
                                   nStakeModifierTime)) \<Rightarrow>
                          if \<not> ok then Some (Inr (False, hashProofOfStake0))
                          else
                            let hashProofOfStake =
                                  Hash env (kernel_stream nStakeModifier' nTimeBlockFrom
                                              nTxPrevOffset txPrevTime (prevout_n prevout)
                                              nTimeTx)
                            in if bnCoinDayWeight * bnTargetPerCoinDay < hashProofOfStake
                               then Some (Inr (False, hashProofOfStake))
                               else Some (Inr (True, hashProofOfStake))))"

subsection \<open>CheckKernelScript\<close>



subsection \<open>A well-formed active chain\<close>

text \<open>
  The entry of the active chain at height \<open>h\<close> has height \<open>h\<close>. On such a chain
  the loop of \<open>GetKernelStakeModifier\<close> ends: every step moves forward in
  \<open>tmpChain\<close> or up the active chain, which \<open>loop_measure\<close> counts.
\<close>

definition active_chain_wellformed :: "CBlockIndex list \<Rightarrow> bool" where
  "active_chain_wellformed vChain = (\<forall>i < length vChain. nHeight (vChain ! i) = int i)"

definition loop_measure :: "CBlockIndex list \<Rightarrow> CBlockIndex list \<Rightarrow> CBlockIndex \<Rightarrow> nat \<Rightarrow> nat" where
  "loop_measure vChain tmpChain p n =
     (length tmpChain - n) * (length vChain + 1)
     + (if CChain_Contains vChain p then nat (int (length vChain) - nHeight p) else 0)"

section \<open>Example inputs\<close>

text \<open>
  Small concrete inputs on which the definitions are run: a modifier interval
  of one minute, a minimum age of one hour, and collaborators that answer with
  constants. The example hash of a stream is its length.
\<close>

definition example_params :: ConsensusParams where
  "example_params =
     \<lparr>nModifierInterval = 60, nPosTargetSpacing = 60, nStakeMinAge = 3600,
      nStakeMaxAge = 7776000, nMinimumStakeValue = 1000000000000,
      nGenerationHeight = 100, nGenerationAmount = 500000000000000,
      nSuperblockStartBlock = 200\<rparr>"

definition example_env :: Env where
  "example_env =
     \<lparr>Params = example_params,
      nModifierIntervalGlobal = 60,
      MODIFIER_INTERVAL_RATIO = 3,
      COIN = 100000000,
      mapBlockIndex = Map.empty,
      Hash = (\<lambda>bs. of_nat (length bs)),
      Hash160 = (\<lambda>bs. replicate 20 (of_nat (length bs))),
      Solver = (\<lambda>s. (False, TX_NONSTANDARD, [])),
      SporkAddresses = [''spork''],
      GetScriptForDestination = (\<lambda>a. [of_nat (length a)]),
      fLiteMode = False,
      masternodeSync_IsSynced = True,
      IsSporkActive_SUPERBLOCKS_ENABLED = True,
      CSuperblock_GetPaymentsLimit = (\<lambda>h. 0),
      CSuperblock_IsValidBlockHeight = (\<lambda>h. False),
      IsSuperblockTriggered = (\<lambda>h. False),
      CSuperblockManager_IsValid = (\<lambda>tx h r. False),
      GetValueIn = (\<lambda>tx. 0),
      GetValueOut = (\<lambda>tx. sum_list (map nValue (vout tx))),
      GetMasternodePayment = (\<lambda>h r. r),
      chainActive = [],
      GetMNPayee = (\<lambda>h. None),
      ExtractDestination = (\<lambda>s. True),
      strprintf = (\<lambda>fmt args. fmt)\<rparr>"

text \<open>
  A chain of two blocks: \<open>blkF\<close> at height 0 and time 1000, and \<open>blkG\<close> at
  height 1 and time 5000, which generated the modifier \<open>0x1234\<close>.
\<close>

definition blkF :: CBlockIndex where
  "blkF = CBlockIndex None 0 1000 0xF0 False False True 0 0"

definition blkG :: CBlockIndex where
  "blkG = CBlockIndex (Some blkF) 1 5000 0xF1 False True False 0x1234 0"

text \<open>A third block \<open>blkH\<close> on top of \<open>blkG\<close>, two modifier intervals later.\<close>

definition blkH :: CBlockIndex where
  "blkH = CBlockIndex (Some blkG) 2 5100 0xF4 False False True 0 0"

definition chain_env :: Env where
  "chain_env =
     example_env\<lparr>mapBlockIndex := [0xF0 \<mapsto> blkF, 0xF1 \<mapsto> blkG, 0xF4 \<mapsto> blkH],
                 chainActive := [blkF, blkG]\<rparr>"

text \<open>
  A masternode with an operator reward of 25 percent, the payee of the list
  for \<open>blkG\<close>; the list for \<open>blkF\<close> has no payee.
\<close>

definition example_mn :: CDeterministicMN where
  "example_mn = \<lparr>nOperatorReward = 2500, scriptPayout = [1], scriptOperatorPayout = [2]\<rparr>"

definition payments_env :: Env where
  "payments_env =
     chain_env\<lparr>GetMNPayee := (\<lambda>h. if h = 0xF1 then Some example_mn else None)\<rparr>"

subsection \<open>The key of a script, as specified\<close>







text \<open>
  A chain on which time runs backwards: \<open>blkA\<close> at time 120 generated the
  modifier \<open>0xABCD\<close>; its child \<open>blkB\<close> has time 100.
\<close>

definition blkA :: CBlockIndex where
  "blkA = CBlockIndex None 0 120 0xA0 False True False 0xABCD 0"

definition blkB :: CBlockIndex where
  "blkB = CBlockIndex (Some blkA) 1 100 0xA1 False False False 0 0"

text \<open>A first block at time 30, without a generated modifier.\<close>

definition blkE :: CBlockIndex where
  "blkE = CBlockIndex None 0 30 0xE0 False False True 0 0"





subsection \<open>The kernel preimage, as specified\<close>

text \<open>
  The preimage in the words of the specification:
  \<open>modifier:u64 \<parallel> block_from.time:u32 \<parallel> tx_offset_in_block:u32 \<parallel>
  tx_prev.time:u32 \<parallel> prevout.n:u32 \<parallel> time_tx:u32\<close>, each value serialized
  little-endian.
\<close>

definition spec_kernel_preimage ::
  "uint64 \<Rightarrow> uint32 \<Rightarrow> uint32 \<Rightarrow> uint32 \<Rightarrow> uint32 \<Rightarrow> uint32 \<Rightarrow> byte list" where
  "spec_kernel_preimage modifier block_from_time tx_offset_in_block tx_prev_time prevout_n'
     time_tx =
     ser_uint64 modifier @ ser_uint32 block_from_time @ ser_uint32 tx_offset_in_block @
     ser_uint32 tx_prev_time @ ser_uint32 prevout_n' @ ser_uint32 time_tx"

text \<open>
  A stake of 20000 coins confirmed in \<open>blkF\<close>, the first output of its
  transaction, staked at time 6000 on top of \<open>blkG\<close>.
\<close>

definition example_header :: CBlockHeader where
  "example_header = \<lparr>headerGetBlockTime = 1000, headerGetHash = 0xF0\<rparr>"

definition example_txPrev :: CTransaction where
  "example_txPrev = \<lparr>vout = [\<lparr>nValue = 2000000000000, scriptPubKey = [1]\<rparr>]\<rparr>"

definition example_prevout :: COutPoint where
  "example_prevout = \<lparr>prevout_hash = 0xAA, prevout_n = 0\<rparr>"

section \<open>Masternode payments: properties\<close>

subsection \<open>Loops as membership\<close>

lemma found_txout_iff: "found_txout txout vs \<longleftrightarrow> txout \<in> set vs"
  by (induction vs) auto

lemma pays_generation_iff:
  "pays_generation amount payeeAddr vs \<longleftrightarrow>
     (\<exists>tx \<in> set vs. nValue tx = amount \<and> scriptPubKey tx = payeeAddr)"
  by (induction vs) auto

lemma all_payments_found_True_iff:
  "all_payments_found env expected vs = Inr True \<longleftrightarrow> set expected \<subseteq> set vs"
  by (induction expected) (auto simp: found_txout_iff)

lemma all_payments_found_False:
  "\<not> set expected \<subseteq> set vs \<Longrightarrow>
   \<forall>txout \<in> set expected. ExtractDestination env (scriptPubKey txout) \<Longrightarrow>
   all_payments_found env expected vs = Inr False"
  by (induction expected) (auto simp: found_txout_iff)

subsection \<open>Block value at the generation height\<close>

text \<open>
  C7. At \<open>nBlockHeight = nGenerationHeight\<close>, \<open>IsBlockValueValid\<close> returns true
  with an empty \<open>strErrorRet\<close>, for every block that has the transaction
  \<open>vtx[n]\<close> it reads, every reward and every answer of the collaborators: no
  gate on the reward, the superblock limit, the spork or the trigger is
  applied.
\<close>

theorem IsBlockValueValid_generation_height:
  assumes "nBlockHeight = nGenerationHeight (Params env)"
    and "(if blockIsProofOfStake block then 1 else 0) < length (vtx block)"
  shows "IsBlockValueValid env block nBlockHeight blockReward = Inr (True, '''')"
  using assms by (auto simp: IsBlockValueValid_def Let_def split: if_splits)

theorem IsBlockValueValid_generation_height_witness:
  "100 = nGenerationHeight (Params example_env)
   \<and> (if blockIsProofOfStake
            \<lparr>blockIsProofOfStake = False,
              vtx = [\<lparr>vout = [\<lparr>nValue = 900000000000000, scriptPubKey = [1]\<rparr>]\<rparr>]\<rparr>
        then 1 else 0)
       < length (vtx \<lparr>blockIsProofOfStake = False,
                      vtx = [\<lparr>vout = [\<lparr>nValue = 900000000000000, scriptPubKey = [1]\<rparr>]\<rparr>]\<rparr>)
   \<and> IsBlockValueValid example_env
        \<lparr>blockIsProofOfStake = False,
          vtx = [\<lparr>vout = [\<lparr>nValue = 900000000000000, scriptPubKey = [1]\<rparr>]\<rparr>]\<rparr> 100 1
       = Inr (True, '''')"
  using IsBlockValueValid_generation_height [of 100 example_env
      "\<lparr>blockIsProofOfStake = False,
        vtx = [\<lparr>vout = [\<lparr>nValue = 900000000000000, scriptPubKey = [1]\<rparr>]\<rparr>]\<rparr>" 1]
  by (simp add: example_env_def example_params_def)

text \<open>The same block one height later is rejected for its value.\<close>

lemma IsBlockValueValid_next_height_example:
  "IsBlockValueValid example_env
     \<lparr>blockIsProofOfStake = False,
       vtx = [\<lparr>vout = [\<lparr>nValue = 900000000000000, scriptPubKey = [1]\<rparr>]\<rparr>]\<rparr> 101 1
   = Inr (False,
       ''coinbase pays too much at height %d (actual=%d vs limit=%d), exceeded block reward, only regular blocks are allowed at this height'')"
  by code_simp

subsection \<open>The operator's share\<close>

lemma sint_ucast_16_64: "sint (ucast (w :: 16 word) :: 64 word) = uint w"
proof -
  have "uint w < 2 ^ 16" using uint_bounded [of w] by simp
  then have "uint w < 2 ^ 63" by simp
  moreover have "0 \<le> uint w" by simp
  then have "- (2 ^ 63) \<le> uint w" by (simp add: order_trans [of _ 0])
  ultimately have "signed_take_bit 63 (uint w) = uint w"
    by (intro signed_take_bit_int_eq_self)
  moreover have "(ucast w :: 64 word) = word_of_int (uint w)" by simp
  ultimately show ?thesis by (simp only: sint_sbintrunc') simp
qed

lemma sint_word_of_int_64:
  "- (2 ^ 63) \<le> k \<Longrightarrow> k < 2 ^ 63 \<Longrightarrow> sint (word_of_int k :: 64 word) = k"
  by (simp add: sint_sbintrunc' signed_take_bit_int_eq_self)

lemma sdiv_10000_bounds:
  fixes p :: int
  shows "(0 \<le> p \<longrightarrow> 0 \<le> p sdiv 10000 \<and> p sdiv 10000 \<le> p)
       \<and> (p \<le> 0 \<longrightarrow> p \<le> p sdiv 10000 \<and> p sdiv 10000 \<le> 0)"
proof (cases "0 \<le> p")
  case True
  then have "p sdiv 10000 = p div 10000"
    by (auto simp: signed_divide_int_def sgn_if)
  moreover have "p div 10000 \<le> p" using True by (cases "p = 0") (simp_all add: int_div_le_self)
  moreover have "0 \<le> p div 10000" using True by simp
  ultimately show ?thesis using True by (cases "p = 0") auto
next
  case False
  then have eq: "p sdiv 10000 = - ((- p) div 10000)"
    by (auto simp: signed_divide_int_def sgn_if)
  have "(- p) div 10000 \<le> - p" using False by (simp add: int_div_le_self)
  moreover have "0 \<le> (- p) div 10000" using False by simp
  ultimately show ?thesis using False eq by auto
qed

lemma word_sless_0_64: "(0 <s (w :: 64 word)) \<longleftrightarrow> 0 < sint w"
  by (simp add: word_sless_alt)

text \<open>
  C8. When the payee has \<open>nOperatorReward \<noteq> 0\<close> and a non-empty operator
  payout script, and the product \<open>masternodeReward * nOperatorReward\<close> fits
  an \<open>int64_t\<close>, the operator's cut is that product divided by 10000
  (truncated), it is taken off the masternode's reward, and the result holds
  the reduced masternode output first and the operator output second, each
  only if its value is positive.
\<close>

theorem GetBlockTxOuts_operator_split:
  assumes chain: "CChain_at (chainActive env) (nBlockHeight - 1) = Some pindex"
    and payee: "GetMNPayee env (GetBlockHash pindex) = Some dmn"
    and bp: "nOperatorReward dmn \<noteq> 0"
    and script: "scriptOperatorPayout dmn \<noteq> []"
    and lo: "- (2 ^ 63) \<le> sint (GetMasternodePayment env nBlockHeight blockReward)
                            * uint (nOperatorReward dmn)"
    and hi: "sint (GetMasternodePayment env nBlockHeight blockReward)
               * uint (nOperatorReward dmn) < 2 ^ 63"
  shows "GetBlockTxOuts env nBlockHeight blockReward =
     (let masternode_reward = sint (GetMasternodePayment env nBlockHeight blockReward);
          operator_cut = (masternode_reward * uint (nOperatorReward dmn)) sdiv 10000
      in Inr (True,
           (if 0 < masternode_reward - operator_cut
            then [\<lparr>nValue = word_of_int (masternode_reward - operator_cut),
                    scriptPubKey = scriptPayout dmn\<rparr>]
            else []) @
           (if 0 < operator_cut
            then [\<lparr>nValue = word_of_int operator_cut,
                    scriptPubKey = scriptOperatorPayout dmn\<rparr>]
            else [])))"
proof -
  define mr where "mr = GetMasternodePayment env nBlockHeight blockReward"
  define p where "p = sint mr * uint (nOperatorReward dmn)"
  define c where "c = p sdiv 10000"
  have p_range: "- (2 ^ 63) \<le> p" "p < 2 ^ 63"
    using lo hi by (simp_all add: p_def mr_def)
  have prod: "sint (mr * ucast (nOperatorReward dmn)) = p"
    using p_range by (simp add: sint_word_mult sint_ucast_16_64 p_def signed_take_bit_int_eq_self)
  have cb: "(0 \<le> p \<longrightarrow> 0 \<le> c \<and> c \<le> p) \<and> (p \<le> 0 \<longrightarrow> p \<le> c \<and> c \<le> 0)"
    unfolding c_def by (rule sdiv_10000_bounds)
  have c_range: "- (2 ^ 63) \<le> c" "c < 2 ^ 63"
    using cb p_range by auto
  have quot: "sdiv64 (mr * ucast (nOperatorReward dmn)) 10000 = Inr (word_of_int c)"
    by (simp add: sdiv64_def prod c_def)
  have sint_c: "sint (word_of_int c :: 64 word) = c"
    using c_range by (rule sint_word_of_int_64)
  have bp_pos: "0 < uint (nOperatorReward dmn)"
    using bp by (simp add: word_neq_0_conv word_less_def)
  have sign: "(0 \<le> sint mr \<longrightarrow> 0 \<le> p) \<and> (sint mr \<le> 0 \<longrightarrow> p \<le> 0)"
    using bp_pos by (auto simp: p_def mult_nonneg_nonneg mult_nonpos_nonneg)
  have mr_range: "- (2 ^ 63) \<le> sint mr" "sint mr < 2 ^ 63"
    using sint_range_size [of mr] by (simp_all add: word_size)
  have diff_range: "- (2 ^ 63) \<le> sint mr - c" "sint mr - c < 2 ^ 63"
    using cb sign mr_range c_range by auto
  have diff_eq: "mr - word_of_int c = (word_of_int (sint mr - c) :: 64 word)"
    by simp
  have sint_diff: "sint (word_of_int (sint mr - c) :: 64 word) = sint mr - c"
    using diff_range by (rule sint_word_of_int_64)
  have "GetBlockTxOuts env nBlockHeight blockReward =
          Inr (True,
            (if 0 <s mr - word_of_int c
             then [\<lparr>nValue = mr - word_of_int c, scriptPubKey = scriptPayout dmn\<rparr>]
             else []) @
            (if 0 <s (word_of_int c :: 64 word)
             then [\<lparr>nValue = word_of_int c, scriptPubKey = scriptOperatorPayout dmn\<rparr>]
             else []))"
    using chain payee bp script quot
    by (simp add: GetBlockTxOuts_def Let_def flip: mr_def)
  also have "\<dots> =
          Inr (True,
            (if 0 < sint mr - c
             then [\<lparr>nValue = word_of_int (sint mr - c), scriptPubKey = scriptPayout dmn\<rparr>]
             else []) @
            (if 0 < c
             then [\<lparr>nValue = word_of_int c, scriptPubKey = scriptOperatorPayout dmn\<rparr>]
             else []))"
    by (simp only: word_sless_0_64 sint_c sint_diff diff_eq)
  finally show ?thesis
    by (simp only: Let_def c_def p_def mr_def)
qed

lemma payments_env_chain1: "CChain_at (chainActive payments_env) (2 - 1) = Some blkG"
  by (simp add: payments_env_def chain_env_def CChain_at_def)

lemma payments_env_payee: "GetMNPayee payments_env (GetBlockHash blkG) = Some example_mn"
  by (simp add: payments_env_def blkG_def)

theorem GetBlockTxOuts_operator_split_witness:
  "CChain_at (chainActive payments_env) (2 - 1) = Some blkG
   \<and> GetMNPayee payments_env (GetBlockHash blkG) = Some example_mn
   \<and> nOperatorReward example_mn = 2500
   \<and> scriptOperatorPayout example_mn \<noteq> []
   \<and> GetMasternodePayment payments_env 2 1000000000 = 1000000000
   \<and> GetBlockTxOuts payments_env 2 1000000000 =
       Inr (True, [\<lparr>nValue = 750000000, scriptPubKey = scriptPayout example_mn\<rparr>,
                   \<lparr>nValue = 250000000, scriptPubKey = scriptOperatorPayout example_mn\<rparr>])"
proof -
  have r: "GetMasternodePayment payments_env 2 1000000000 = 1000000000"
    by (simp add: payments_env_def chain_env_def example_env_def)
  have b: "nOperatorReward example_mn = 2500" "scriptOperatorPayout example_mn \<noteq> []"
    by (simp_all add: example_mn_def)
  have q: "(2500000000000 :: int) sdiv 10000 = 250000000"
    by (simp add: signed_divide_int_def)
  have "GetBlockTxOuts payments_env 2 1000000000 =
       Inr (True, [\<lparr>nValue = 750000000, scriptPubKey = scriptPayout example_mn\<rparr>,
                   \<lparr>nValue = 250000000, scriptPubKey = scriptOperatorPayout example_mn\<rparr>])"
    using GetBlockTxOuts_operator_split [OF payments_env_chain1 payments_env_payee,
        of 1000000000]
    by (simp add: r b q)
  then show ?thesis
    using payments_env_chain1 payments_env_payee r b by blast
qed

subsection \<open>Expected masternode outputs\<close>

lemma GetBlockTxOuts_no_payee:
  "CChain_at (chainActive env) (nBlockHeight - 1) = Some pindex \<Longrightarrow>
   GetMNPayee env (GetBlockHash pindex) = None \<Longrightarrow>
   GetBlockTxOuts env nBlockHeight blockReward = Inr (False, [])"
  by (simp add: GetBlockTxOuts_def)

lemma sdiv64_10000: "\<exists>q. sdiv64 a 10000 = Inr q"
  by (simp add: sdiv64_def)

lemma GetBlockTxOuts_payee:
  "CChain_at (chainActive env) (nBlockHeight - 1) = Some pindex \<Longrightarrow>
   GetMNPayee env (GetBlockHash pindex) = Some dmn \<Longrightarrow>
   \<exists>expected. GetBlockTxOuts env nBlockHeight blockReward = Inr (True, expected)"
  using sdiv64_10000 [of "GetMasternodePayment env nBlockHeight blockReward
                           * ucast (nOperatorReward dmn)"]
  by (auto simp: GetBlockTxOuts_def Let_def)

text \<open>
  C9. With the entry \<open>chainActive[nBlockHeight - 1]\<close> present:
  \<open>IsTransactionValid\<close> returns true when the masternode list has no payee;
  with a payee it returns true exactly when every expected output is one of
  the outputs of \<open>txNew\<close>, value and script, and it returns false when one is
  missing (the source asserts that the script of a missing output has a
  destination).
\<close>

theorem IsTransactionValid_expected_outputs:
  assumes "CChain_at (chainActive env) (nBlockHeight - 1) = Some pindex"
  shows "(GetMNPayee env (GetBlockHash pindex) = None \<longrightarrow>
            IsTransactionValid env txNew nBlockHeight blockReward = Inr True)
       \<and> (GetMNPayee env (GetBlockHash pindex) \<noteq> None \<longrightarrow>
            (\<exists>expected.
               GetBlockTxOuts env nBlockHeight blockReward = Inr (True, expected)
             \<and> (IsTransactionValid env txNew nBlockHeight blockReward = Inr True
                  \<longleftrightarrow> set expected \<subseteq> set (vout txNew))
             \<and> (\<not> set expected \<subseteq> set (vout txNew)
                  \<and> (\<forall>txout \<in> set expected. ExtractDestination env (scriptPubKey txout))
                  \<longrightarrow> IsTransactionValid env txNew nBlockHeight blockReward = Inr False)))"
proof (intro conjI impI)
  assume "GetMNPayee env (GetBlockHash pindex) = None"
  then show "IsTransactionValid env txNew nBlockHeight blockReward = Inr True"
    using assms by (simp add: IsTransactionValid_def GetBlockTxOuts_no_payee)
next
  assume "GetMNPayee env (GetBlockHash pindex) \<noteq> None"
  then obtain dmn where "GetMNPayee env (GetBlockHash pindex) = Some dmn" by auto
  then obtain expected where
    e: "GetBlockTxOuts env nBlockHeight blockReward = Inr (True, expected)"
    using assms GetBlockTxOuts_payee by blast
  have "IsTransactionValid env txNew nBlockHeight blockReward =
          all_payments_found env expected (vout txNew)"
    by (simp add: IsTransactionValid_def e)
  then show "\<exists>expected.
               GetBlockTxOuts env nBlockHeight blockReward = Inr (True, expected)
             \<and> (IsTransactionValid env txNew nBlockHeight blockReward = Inr True
                  \<longleftrightarrow> set expected \<subseteq> set (vout txNew))
             \<and> (\<not> set expected \<subseteq> set (vout txNew)
                  \<and> (\<forall>txout \<in> set expected. ExtractDestination env (scriptPubKey txout))
                  \<longrightarrow> IsTransactionValid env txNew nBlockHeight blockReward = Inr False)"
    using e by (auto simp: all_payments_found_True_iff all_payments_found_False)
qed

lemma payments_env_outs:
  "GetBlockTxOuts payments_env 2 1000000000 =
     Inr (True, [\<lparr>nValue = 750000000, scriptPubKey = [1]\<rparr>,
                 \<lparr>nValue = 250000000, scriptPubKey = [2]\<rparr>])"
  by code_simp

lemma payments_env_chain0: "CChain_at (chainActive payments_env) (1 - 1) = Some blkF"
  by (simp add: payments_env_def chain_env_def CChain_at_def)

theorem IsTransactionValid_expected_outputs_witness:
  "CChain_at (chainActive payments_env) (2 - 1) = Some blkG
   \<and> GetMNPayee payments_env (GetBlockHash blkG) \<noteq> None
   \<and> IsTransactionValid payments_env
        \<lparr>vout = [\<lparr>nValue = 250000000, scriptPubKey = [2]\<rparr>,
                 \<lparr>nValue = 750000000, scriptPubKey = [1]\<rparr>]\<rparr> 2 1000000000 = Inr True
   \<and> IsTransactionValid payments_env
        \<lparr>vout = [\<lparr>nValue = 750000000, scriptPubKey = [1]\<rparr>]\<rparr> 2 1000000000 = Inr False
   \<and> CChain_at (chainActive payments_env) (1 - 1) = Some blkF
   \<and> GetMNPayee payments_env (GetBlockHash blkF) = None
   \<and> IsTransactionValid payments_env \<lparr>vout = []\<rparr> 1 1000000000 = Inr True"
proof -
  have p: "GetMNPayee payments_env (GetBlockHash blkG) \<noteq> None"
    by (simp add: payments_env_payee)
  have n: "GetMNPayee payments_env (GetBlockHash blkF) = None"
    by (simp add: payments_env_def blkF_def)
  have d: "\<forall>txout \<in> set [\<lparr>nValue = 750000000, scriptPubKey = [1]\<rparr>,
                           \<lparr>nValue = 250000000 :: CAmount, scriptPubKey = [2]\<rparr>].
             ExtractDestination payments_env (scriptPubKey txout)"
    by (simp add: payments_env_def chain_env_def example_env_def)
  have a: "IsTransactionValid payments_env
        \<lparr>vout = [\<lparr>nValue = 250000000, scriptPubKey = [2]\<rparr>,
                 \<lparr>nValue = 750000000, scriptPubKey = [1]\<rparr>]\<rparr> 2 1000000000 = Inr True"
    using IsTransactionValid_expected_outputs [OF payments_env_chain1,
      of "\<lparr>vout = [\<lparr>nValue = 250000000, scriptPubKey = [2]\<rparr>,
                 \<lparr>nValue = 750000000, scriptPubKey = [1]\<rparr>]\<rparr>" 1000000000] p
    by (simp add: payments_env_outs)
  have b: "IsTransactionValid payments_env
        \<lparr>vout = [\<lparr>nValue = 750000000, scriptPubKey = [1]\<rparr>]\<rparr> 2 1000000000 = Inr False"
    using IsTransactionValid_expected_outputs [OF payments_env_chain1,
      of "\<lparr>vout = [\<lparr>nValue = 750000000, scriptPubKey = [1]\<rparr>]\<rparr>" 1000000000] p d
    by (simp add: payments_env_outs)
  have c: "IsTransactionValid payments_env \<lparr>vout = []\<rparr> 1 1000000000 = Inr True"
    using IsTransactionValid_expected_outputs [OF payments_env_chain0,
      of "\<lparr>vout = []\<rparr>" 1000000000] n
    by simp
  show ?thesis
    using payments_env_chain1 payments_env_chain0 p n a b c by blast
qed

subsection \<open>The payee at the generation height\<close>

text \<open>
  C10. At \<open>nBlockHeight = nGenerationHeight\<close>, with a first spork address,
  \<open>IsBlockPayeeValid\<close> returns true exactly when an output of \<open>txNew\<close> pays
  \<open>nGenerationAmount\<close> to the script of that address. This holds whatever
  \<open>fLiteMode\<close> is: the height is tested before the lite-mode shortcut.
\<close>

theorem IsBlockPayeeValid_generation_height:
  assumes "nBlockHeight = nGenerationHeight (Params env)"
    and "SporkAddresses env \<noteq> []"
  shows "IsBlockPayeeValid env txNew nBlockHeight blockReward =
           Inr (\<exists>tx \<in> set (vout txNew).
                  nValue tx = nGenerationAmount (Params env) \<and>
                  scriptPubKey tx = GetScriptForDestination env (hd (SporkAddresses env)))"
  using assms
  by (cases "SporkAddresses env") (simp_all add: IsBlockPayeeValid_def pays_generation_iff)

theorem IsBlockPayeeValid_generation_height_witness:
  "100 = nGenerationHeight (Params (example_env\<lparr>fLiteMode := True\<rparr>))
   \<and> SporkAddresses (example_env\<lparr>fLiteMode := True\<rparr>) \<noteq> []
   \<and> fLiteMode (example_env\<lparr>fLiteMode := True\<rparr>)
   \<and> IsBlockPayeeValid (example_env\<lparr>fLiteMode := True\<rparr>)
        \<lparr>vout = [\<lparr>nValue = 7, scriptPubKey = [9]\<rparr>,
                 \<lparr>nValue = 500000000000000, scriptPubKey = [5]\<rparr>]\<rparr> 100 1 = Inr True
   \<and> IsBlockPayeeValid (example_env\<lparr>fLiteMode := True\<rparr>)
        \<lparr>vout = [\<lparr>nValue = 7, scriptPubKey = [5]\<rparr>,
                 \<lparr>nValue = 500000000000000, scriptPubKey = [9]\<rparr>]\<rparr> 100 1 = Inr False"
  using IsBlockPayeeValid_generation_height [of 100 "example_env\<lparr>fLiteMode := True\<rparr>"
      "\<lparr>vout = [\<lparr>nValue = 7, scriptPubKey = [9]\<rparr>,
                \<lparr>nValue = 500000000000000, scriptPubKey = [5]\<rparr>]\<rparr>" 1]
    IsBlockPayeeValid_generation_height [of 100 "example_env\<lparr>fLiteMode := True\<rparr>"
      "\<lparr>vout = [\<lparr>nValue = 7, scriptPubKey = [5]\<rparr>,
                \<lparr>nValue = 500000000000000, scriptPubKey = [9]\<rparr>]\<rparr>" 1]
  by (simp add: example_env_def example_params_def)

text \<open>Off the generation height, lite mode accepts the second transaction.\<close>

lemma IsBlockPayeeValid_lite_mode_example:
  "IsBlockPayeeValid (example_env\<lparr>fLiteMode := True\<rparr>)
     \<lparr>vout = [\<lparr>nValue = 7, scriptPubKey = [5]\<rparr>,
              \<lparr>nValue = 500000000000000, scriptPubKey = [9]\<rparr>]\<rparr> 101 1 = Inr True"
  by (simp add: IsBlockPayeeValid_def example_env_def example_params_def)

section \<open>Kernel: properties\<close>

subsection \<open>The kernel script check\<close>







subsection \<open>Reusing the last modifier\<close>

lemma sdiv_pos_bounds:
  fixes a b :: int
  assumes "0 < b"
  shows "(0 \<le> a \<longrightarrow> 0 \<le> a sdiv b \<and> a sdiv b \<le> a)
       \<and> (a \<le> 0 \<longrightarrow> a \<le> a sdiv b \<and> a sdiv b \<le> 0)"
proof (cases "0 \<le> a")
  case True
  then have "a sdiv b = a div b"
    using assms by (auto simp: signed_divide_int_def sgn_if)
  moreover have "a div b \<le> a" using True by (cases "a = 0") (simp_all add: int_div_le_self)
  moreover have "0 \<le> a div b" using True assms by (simp add: pos_imp_zdiv_nonneg_iff)
  ultimately show ?thesis using True by (cases "a = 0") auto
next
  case False
  then have eq: "a sdiv b = - ((- a) div b)"
    using assms by (auto simp: signed_divide_int_def sgn_if)
  have "(- a) div b \<le> - a" using False by (simp add: int_div_le_self)
  moreover have "0 \<le> (- a) div b" using False assms by (simp add: pos_imp_zdiv_nonneg_iff)
  ultimately show ?thesis using False eq by auto
qed

lemma sdiv64_pos:
  assumes "0 <s b"
  shows "sdiv64 a b = Inr (word_of_int (sint a sdiv sint b))"
    and "sint (word_of_int (sint a sdiv sint b) :: 64 word) = sint a sdiv sint b"
proof -
  have pos: "0 < sint b" using assms by (simp add: word_sless_alt)
  then have "b \<noteq> 0" "b \<noteq> - 1" by auto
  then show "sdiv64 a b = Inr (word_of_int (sint a sdiv sint b))"
    by (simp add: sdiv64_def)
  have r: "- (2 ^ 63) \<le> sint a" "sint a < 2 ^ 63"
    using sint_range_size [of a] by (simp_all add: word_size)
  have "- (2 ^ 63) \<le> sint a sdiv sint b" "sint a sdiv sint b < 2 ^ 63"
    using sdiv_pos_bounds [OF pos, of "sint a"] r by auto
  then show "sint (word_of_int (sint a sdiv sint b) :: 64 word) = sint a sdiv sint b"
    by (rule sint_word_of_int_64)
qed

lemma new_stake_modifier_generated:
  "new_stake_modifier env pindexPrev m \<noteq> Inr (True, m', False)"
  by (auto simp: new_stake_modifier_def Let_def split: sum.splits prod.splits bool.splits)

lemma ComputeNextStakeModifier_unfold:
  assumes "pprev pindexCurrent = Some pindexPrev"
    and "0 <s nModifierInterval (Params env)"
    and "GetLastStakeModifier (Some pindexPrev) 0 0 = (True, m, t)"
  shows "ComputeNextStakeModifier env pindexCurrent =
           (if sint (GetBlockTime pindexPrev) sdiv sint (nModifierInterval (Params env))
                 \<le> sint t sdiv sint (nModifierInterval (Params env))
            then Inr (True, m, False)
            else new_stake_modifier env pindexPrev m)"
  using assms
  by (simp add: ComputeNextStakeModifier_def sdiv64_pos word_sle_eq)

text \<open>
  C3, as the source has it. For a non-null \<open>pindexPrev\<close> whose walk finds a
  generated modifier, and a positive modifier interval:
  \<open>ComputeNextStakeModifier\<close> returns the last modifier with
  \<open>fGeneratedStakeModifier = false\<close> when the quotient of the last modifier's
  time by the interval is greater than or equal to the quotient of
  \<open>pindexPrev\<close>'s time; when it is less, a new modifier is computed, and the
  function does not return true with \<open>fGeneratedStakeModifier = false\<close>.
\<close>

theorem ComputeNextStakeModifier_reuse:
  assumes "pprev pindexCurrent = Some pindexPrev"
    and "GeneratedStakeModifier (last_modifier_walk pindexPrev)"
    and "0 <s nModifierInterval (Params env)"
  shows "(sint (GetBlockTime pindexPrev) sdiv sint (nModifierInterval (Params env))
            \<le> sint (GetBlockTime (last_modifier_walk pindexPrev))
                 sdiv sint (nModifierInterval (Params env))
          \<longrightarrow> ComputeNextStakeModifier env pindexCurrent =
                Inr (True, nStakeModifier (last_modifier_walk pindexPrev), False))
       \<and> (sint (GetBlockTime (last_modifier_walk pindexPrev))
              sdiv sint (nModifierInterval (Params env))
            < sint (GetBlockTime pindexPrev) sdiv sint (nModifierInterval (Params env))
          \<longrightarrow> ComputeNextStakeModifier env pindexCurrent =
                new_stake_modifier env pindexPrev (nStakeModifier (last_modifier_walk pindexPrev))
              \<and> (\<forall>m. ComputeNextStakeModifier env pindexCurrent \<noteq> Inr (True, m, False)))"
proof -
  have "GetLastStakeModifier (Some pindexPrev) 0 0 =
          (True, nStakeModifier (last_modifier_walk pindexPrev),
           GetBlockTime (last_modifier_walk pindexPrev))"
    using assms(2) by (simp add: GetLastStakeModifier_def Let_def)
  from ComputeNextStakeModifier_unfold [OF assms(1) assms(3) this]
  show ?thesis
    by (auto simp: new_stake_modifier_generated)
qed

lemma blkB_walk: "last_modifier_walk blkB = blkA"
  by (simp add: blkB_def blkA_def)

lemma blkG_walk: "last_modifier_walk blkG = blkG"
  by (simp add: blkG_def)

lemma example_interval: "nModifierInterval (Params example_env) = 60"
  by (simp add: example_env_def example_params_def)

lemma blkH_walk: "last_modifier_walk blkH = blkG"
  by (simp add: blkH_def blkG_def)

lemma chain_env_interval: "nModifierInterval (Params chain_env) = 60"
  by (simp add: chain_env_def example_env_def example_params_def)

lemma chain_env_new_modifier_blkH:
  "new_stake_modifier chain_env blkH 0x1234 = Inr (True, 2, True)"
  by code_simp

theorem ComputeNextStakeModifier_reuse_witness:
  "pprev (CBlockIndex (Some blkG) 2 5030 0xF2 False False False 0 0) = Some blkG
   \<and> GeneratedStakeModifier (last_modifier_walk blkG)
   \<and> 0 <s nModifierInterval (Params chain_env)
   \<and> ComputeNextStakeModifier chain_env
        (CBlockIndex (Some blkG) 2 5030 0xF2 False False False 0 0) = Inr (True, 0x1234, False)
   \<and> pprev (CBlockIndex (Some blkH) 3 5130 0xF5 False False False 0 0) = Some blkH
   \<and> GeneratedStakeModifier (last_modifier_walk blkH)
   \<and> sint (GetBlockTime (last_modifier_walk blkH)) sdiv sint (nModifierInterval (Params chain_env))
       < sint (GetBlockTime blkH) sdiv sint (nModifierInterval (Params chain_env))
   \<and> ComputeNextStakeModifier chain_env
        (CBlockIndex (Some blkH) 3 5130 0xF5 False False False 0 0) = Inr (True, 2, True)"
proof -
  have g: "GeneratedStakeModifier (last_modifier_walk blkG)"
    by (simp add: blkG_walk) (simp add: blkG_def)
  have gh: "GeneratedStakeModifier (last_modifier_walk blkH)"
    by (simp only: blkH_walk) (simp add: blkG_def)
  have i: "0 <s nModifierInterval (Params chain_env)"
    by (simp add: chain_env_interval word_sless_alt)
  have q: "sint (GetBlockTime (last_modifier_walk blkH))
             sdiv sint (nModifierInterval (Params chain_env))
           < sint (GetBlockTime blkH) sdiv sint (nModifierInterval (Params chain_env))"
    by (simp only: blkH_walk chain_env_interval)
       (simp add: blkG_def blkH_def signed_divide_int_def)
  have a: "ComputeNextStakeModifier chain_env
        (CBlockIndex (Some blkG) 2 5030 0xF2 False False False 0 0) = Inr (True, 0x1234, False)"
    using ComputeNextStakeModifier_reuse [OF _ g i,
        of "CBlockIndex (Some blkG) 2 5030 0xF2 False False False 0 0", THEN conjunct1]
    by (simp add: blkG_walk) (simp add: blkG_def)
  have "ComputeNextStakeModifier chain_env
        (CBlockIndex (Some blkH) 3 5130 0xF5 False False False 0 0)
        = new_stake_modifier chain_env blkH (nStakeModifier (last_modifier_walk blkH))"
    using ComputeNextStakeModifier_reuse [OF _ gh i,
        of "CBlockIndex (Some blkH) 3 5130 0xF5 False False False 0 0", THEN conjunct2] q
    by simp
  then have b: "ComputeNextStakeModifier chain_env
        (CBlockIndex (Some blkH) 3 5130 0xF5 False False False 0 0) = Inr (True, 2, True)"
    by (simp only: blkH_walk) (simp add: blkG_def chain_env_new_modifier_blkH)
  show ?thesis using g gh i q a b by simp
qed

text \<open>
  With equality in place of \<open>\<ge>\<close> the statement fails where the last
  modifier's interval lies after that of \<open>pindexPrev\<close>: the block after \<open>blkB\<close> reuses the modifier of
  \<open>blkA\<close>, with \<open>120 / 60 = 2\<close> and \<open>100 / 60 = 1\<close>.
\<close>

theorem ComputeNextStakeModifier_reuse_counterexample:
  "\<not> (ComputeNextStakeModifier example_env
         (CBlockIndex (Some blkB) 2 130 0xA2 False False False 0 0)
        = Inr (True, nStakeModifier (last_modifier_walk blkB), False)
      \<longleftrightarrow> sint (GetBlockTime (last_modifier_walk blkB))
             sdiv sint (nModifierInterval (Params example_env))
          = sint (GetBlockTime blkB) sdiv sint (nModifierInterval (Params example_env)))"
proof -
  have "ComputeNextStakeModifier example_env
         (CBlockIndex (Some blkB) 2 130 0xA2 False False False 0 0)
        = Inr (True, nStakeModifier (last_modifier_walk blkB), False)"
    by code_simp
  moreover have "sint (GetBlockTime (last_modifier_walk blkB))
             sdiv sint (nModifierInterval (Params example_env))
          \<noteq> sint (GetBlockTime blkB) sdiv sint (nModifierInterval (Params example_env))"
    by (simp add: blkB_walk example_interval) (simp add: blkA_def blkB_def signed_divide_int_def)
  ultimately show ?thesis by simp
qed

subsection \<open>No generated modifier behind the previous block\<close>

lemma last_modifier_walk_start:
  "\<not> GeneratedStakeModifier (last_modifier_walk pindex) \<Longrightarrow>
   pprev (last_modifier_walk pindex) = None"
proof (induction pindex rule: last_modifier_walk.induct)
  case (1 pindex)
  then show ?case
    by (cases "pprev pindex"; cases "GeneratedStakeModifier pindex") auto
qed

text \<open>
  C4, as the source has it. For a non-null \<open>pindexPrev\<close> whose walk ends at
  the start of the chain without a generated modifier, and a positive
  modifier interval: \<open>GetLastStakeModifier\<close> returns true with the modifier 0
  and leaves the time as it was, 0; \<open>ComputeNextStakeModifier\<close> then returns
  the modifier 0 with \<open>fGeneratedStakeModifier = false\<close> when the quotient of
  \<open>pindexPrev\<close>'s time by the interval is at most 0, and computes a new
  modifier from the last modifier 0 when it is positive.
\<close>

theorem ComputeNextStakeModifier_no_generated:
  assumes "pprev pindexCurrent = Some pindexPrev"
    and "\<not> GeneratedStakeModifier (last_modifier_walk pindexPrev)"
    and "0 <s nModifierInterval (Params env)"
  shows "pprev (last_modifier_walk pindexPrev) = None
       \<and> GetLastStakeModifier (Some pindexPrev) 0 0 = (True, 0, 0)
       \<and> (sint (GetBlockTime pindexPrev) sdiv sint (nModifierInterval (Params env)) \<le> 0
            \<longrightarrow> ComputeNextStakeModifier env pindexCurrent = Inr (True, 0, False))
       \<and> (0 < sint (GetBlockTime pindexPrev) sdiv sint (nModifierInterval (Params env))
            \<longrightarrow> ComputeNextStakeModifier env pindexCurrent =
                  new_stake_modifier env pindexPrev 0)"
proof -
  have l: "GetLastStakeModifier (Some pindexPrev) 0 0 = (True, 0, 0)"
    using assms(2) by (simp add: GetLastStakeModifier_def Let_def)
  from ComputeNextStakeModifier_unfold [OF assms(1) assms(3) l]
  show ?thesis
    using l last_modifier_walk_start [OF assms(2)] by auto
qed

lemma blkF_walk: "last_modifier_walk blkF = blkF"
  by (simp add: blkF_def)

lemma blkE_walk: "last_modifier_walk blkE = blkE"
  by (simp add: blkE_def)

lemma chain_env_new_stake_modifier: "new_stake_modifier chain_env blkF 0 = Inr (True, 1, True)"
  by code_simp

theorem ComputeNextStakeModifier_no_generated_witness:
  "pprev (CBlockIndex (Some blkF) 1 1100 0xF9 False False False 0 0) = Some blkF
   \<and> \<not> GeneratedStakeModifier (last_modifier_walk blkF)
   \<and> 0 <s nModifierInterval (Params chain_env)
   \<and> 0 < sint (GetBlockTime blkF) sdiv sint (nModifierInterval (Params chain_env))
   \<and> ComputeNextStakeModifier chain_env
        (CBlockIndex (Some blkF) 1 1100 0xF9 False False False 0 0) = Inr (True, 1, True)
   \<and> pprev (CBlockIndex (Some blkE) 1 40 0xE1 False False False 0 0) = Some blkE
   \<and> \<not> GeneratedStakeModifier (last_modifier_walk blkE)
   \<and> sint (GetBlockTime blkE) sdiv sint (nModifierInterval (Params chain_env)) \<le> 0
   \<and> ComputeNextStakeModifier chain_env
        (CBlockIndex (Some blkE) 1 40 0xE1 False False False 0 0) = Inr (True, 0, False)"
proof -
  have f: "\<not> GeneratedStakeModifier (last_modifier_walk blkF)"
    by (simp add: blkF_walk) (simp add: blkF_def)
  have e: "\<not> GeneratedStakeModifier (last_modifier_walk blkE)"
    by (simp add: blkE_walk) (simp add: blkE_def)
  have i: "0 <s nModifierInterval (Params chain_env)"
    by (simp add: chain_env_interval word_sless_alt)
  have qf: "0 < sint (GetBlockTime blkF) sdiv sint (nModifierInterval (Params chain_env))"
    by (simp add: chain_env_interval blkF_def signed_divide_int_def)
  have qe: "sint (GetBlockTime blkE) sdiv sint (nModifierInterval (Params chain_env)) \<le> 0"
    by (simp add: chain_env_interval blkE_def signed_divide_int_def)
  have a: "ComputeNextStakeModifier chain_env
        (CBlockIndex (Some blkF) 1 1100 0xF9 False False False 0 0) = Inr (True, 1, True)"
    using ComputeNextStakeModifier_no_generated [OF _ f i,
        of "CBlockIndex (Some blkF) 1 1100 0xF9 False False False 0 0"] qf
    by (simp add: chain_env_new_stake_modifier)
  have b: "ComputeNextStakeModifier chain_env
        (CBlockIndex (Some blkE) 1 40 0xE1 False False False 0 0) = Inr (True, 0, False)"
    using ComputeNextStakeModifier_no_generated [OF _ e i,
        of "CBlockIndex (Some blkE) 1 40 0xE1 False False False 0 0"] qe
    by simp
  show ?thesis using f e i qf qe a b by simp
qed

text \<open>
  Modifier 0 with the generation flag set, as for a null \<open>pindexPrev\<close>, is
  not what is returned: behind \<open>blkF\<close>, which has no parent and no generated modifier,
  a new modifier is computed, and it is 1.
\<close>

theorem ComputeNextStakeModifier_no_generated_counterexample:
  "pprev (CBlockIndex (Some blkF) 1 1100 0xF9 False False False 0 0) = Some blkF
   \<and> pprev blkF = None \<and> \<not> GeneratedStakeModifier blkF
   \<and> ComputeNextStakeModifier chain_env
        (CBlockIndex (Some blkF) 1 1100 0xF9 False False False 0 0) = Inr (True, 1, True)
   \<and> ComputeNextStakeModifier chain_env
        (CBlockIndex (Some blkF) 1 1100 0xF9 False False False 0 0) \<noteq> Inr (True, 0, True)"
  by code_simp

subsection \<open>The selection of a round\<close>










subsection \<open>The resolver returns\<close>

lemma CChain_Next_height:
  assumes "active_chain_wellformed vChain" and "CChain_Next vChain p = Some p'"
  shows "CChain_Contains vChain p \<and> CChain_Contains vChain p'
       \<and> nHeight p' = nHeight p + 1 \<and> nHeight p' < int (length vChain) \<and> 0 \<le> nHeight p"
proof -
  have c: "CChain_Contains vChain p"
    using assms(2) by (auto simp: CChain_Next_def split: if_splits)
  then have h: "0 \<le> nHeight p"
    by (auto simp: CChain_Contains_def CChain_at_def split: if_splits)
  have n: "CChain_at vChain (nHeight p + 1) = Some p'"
    using assms(2) c by (simp add: CChain_Next_def)
  then have lt: "nHeight p + 1 < int (length vChain)" and p': "p' = vChain ! nat (nHeight p + 1)"
    by (auto simp: CChain_at_def split: if_splits)
  have hp': "nHeight p' = nHeight p + 1"
    using assms(1) lt h p' by (simp add: active_chain_wellformed_def)
  have "CChain_Contains vChain p'"
    using n hp' by (simp add: CChain_Contains_def)
  then show ?thesis using c hp' lt h by simp
qed

text \<open>
  On a well-formed active chain the loop of \<open>GetKernelStakeModifier\<close> returns,
  for every \<open>tmpChain\<close> and every state: induction on \<open>loop_measure\<close>.
\<close>

lemma kernel_modifier_loop_returns:
  assumes "active_chain_wellformed (chainActive env)"
  shows "\<exists>r. kernel_modifier_loop env S pindexFrom tmpChain (p, n, h, t) = Some r"
proof (induction "loop_measure (chainActive env) tmpChain p n" arbitrary: p n h t
        rule: less_induct)
  case less
  let ?C = "chainActive env"
  show ?case
  proof (cases "t <s GetBlockTime pindexFrom + S")
    case False
    then show ?thesis by (subst kernel_modifier_loop.simps) auto
  next
    case True
    show ?thesis
    proof (cases "tmpChain \<noteq> [] \<and> nHeight (hd tmpChain) - 1 \<le> nHeight p")
      case b1: True
      show ?thesis
      proof (cases "n < length tmpChain")
        case False
        then show ?thesis
          using True b1 by (subst kernel_modifier_loop.simps) auto
      next
        case nlt: True
        have "(if CChain_Contains ?C (tmpChain ! n)
               then nat (int (length ?C) - nHeight (tmpChain ! n)) else 0) \<le> length ?C"
          by (auto simp: CChain_Contains_def CChain_at_def split: if_splits)
        moreover have "length tmpChain - n = Suc (length tmpChain - Suc n)"
          using nlt by simp
        ultimately have m: "loop_measure ?C tmpChain (tmpChain ! n) (Suc n)
                  < loop_measure ?C tmpChain p n"
          by (simp add: loop_measure_def)
        from less [OF m] show ?thesis
          using True b1 nlt by (subst kernel_modifier_loop.simps) auto
      qed
    next
      case b2: False
      show ?thesis
      proof (cases "CChain_Next ?C p")
        case None
        then show ?thesis
          using True b2 by (subst kernel_modifier_loop.simps) auto
      next
        case (Some p')
        note f = CChain_Next_height [OF assms Some]
        have m: "loop_measure ?C tmpChain p' n < loop_measure ?C tmpChain p n"
          using f by (simp add: loop_measure_def)
        from less [OF m] show ?thesis
          using True b2 Some by (subst kernel_modifier_loop.simps) auto
      qed
    qed
  qed
qed

lemma GetKernelStakeModifier_returns:
  assumes "active_chain_wellformed (chainActive env)"
  shows "\<exists>r. GetKernelStakeModifier env pindexPrev hashBlockFrom nTimeTx h0 t0 fPrint = Some r"
proof (cases "mapBlockIndex env hashBlockFrom")
  case None
  then show ?thesis by (simp add: GetKernelStakeModifier_def)
next
  case (Some pindexFrom)
  show ?thesis
  proof (cases "GetStakeModifierSelectionInterval env")
    case (Inl f)
    then show ?thesis using Some by (simp add: GetKernelStakeModifier_def)
  next
    case (Inr S)
    show ?thesis
    proof (cases "build_tmpChain (chainActive env)
                    (nat (nHeight pindexPrev - (nHeight pindexFrom - 1))) (Some pindexPrev)")
      case (Inl f)
      then show ?thesis using Some Inr by (simp add: GetKernelStakeModifier_def Let_def)
    next
      case pushed: (Inr pushed)
      obtain ok pindex h t where
        "kernel_modifier_loop env S pindexFrom (rev pushed)
           (pindexFrom, 0, nHeight pindexFrom, GetBlockTime pindexFrom) = Some (ok, pindex, h, t)"
        using kernel_modifier_loop_returns [OF assms, of S pindexFrom "rev pushed" pindexFrom 0
            "nHeight pindexFrom" "GetBlockTime pindexFrom"]
        by (metis prod_cases4)
      then show ?thesis
        using Some Inr pushed by (cases ok) (simp_all add: GetKernelStakeModifier_def Let_def)
    qed
  qed
qed

lemma CheckStakeKernelHash_returns:
  assumes "active_chain_wellformed (chainActive env)"
  shows "\<exists>r. CheckStakeKernelHash env nBits pindexPrev blockFrom nTxPrevOffset txPrev prevout
               nTimeTx hashProofOfStake0 = Some r"
  using GetKernelStakeModifier_returns [OF assms, of pindexPrev "headerGetHash blockFrom"
      nTimeTx 0 0 False]
  by (auto simp: CheckStakeKernelHash_def Let_def split: sum.splits prod.splits)

lemma chain_env_wellformed: "active_chain_wellformed (chainActive chain_env)"
  by (simp add: active_chain_wellformed_def chain_env_def blkF_def blkG_def less_Suc_eq)

subsection \<open>The kernel hash\<close>

lemma length_le_bytes [simp]: "length (le_bytes k w) = k"
  by (simp add: le_bytes_def)

lemma length_kernel_stream:
  "length (kernel_stream m nTimeBlockFrom nTxPrevOffset txPrevTime prevoutN nTimeTx) = 32"
  by (simp add: kernel_stream_def ser_uint64_def ser_uint32_def ser_int64_def)

lemma length_spec_kernel_preimage:
  "length (spec_kernel_preimage m t1 off t2 n t3) = 28"
  by (simp add: spec_kernel_preimage_def ser_uint64_def ser_uint32_def)

lemma coin_day_weight_returns:
  assumes "0 <s COIN env"
  shows "\<exists>w. coin_day_weight env nValueIn nTimeWeight = Inr w"
proof -
  have "0 <s (200 :: int64)" by (simp add: word_sless_alt)
  then show ?thesis
    using assms by (simp add: coin_day_weight_def sdiv64_pos(1))
qed

text \<open>
  Past the three gates, with the kernel stake modifier resolved, the function
  hashes the stream and compares the hash with the product of the weight and
  the target, a product of two \<open>arith_uint256\<close>.
\<close>

lemma CheckStakeKernelHash_past_gates:
  assumes "\<not> (ucast nTimeTx :: int64) <s headerGetBlockTime blockFrom"
    and "\<not> (ucast nTimeTx :: int64)
           <s ucast (ucast (headerGetBlockTime blockFrom) :: uint32) + nStakeMinAge (Params env)"
    and "unat (prevout_n prevout) < length (vout txPrev)"
    and "\<not> nValue (vout txPrev ! unat (prevout_n prevout)) <s nMinimumStakeValue (Params env)"
    and "coin_day_weight env (nValue (vout txPrev ! unat (prevout_n prevout)))
           (if nStakeMaxAge (Params env) - nStakeMinAge (Params env)
                 <s ucast nTimeTx - headerGetBlockTime blockFrom
            then nStakeMaxAge (Params env) - nStakeMinAge (Params env)
            else ucast nTimeTx - headerGetBlockTime blockFrom) = Inr w"
    and "GetKernelStakeModifier env pindexPrev (headerGetHash blockFrom) nTimeTx 0 0 False
           = Some (Inr (True, m, h, t))"
  shows "CheckStakeKernelHash env nBits pindexPrev blockFrom nTxPrevOffset txPrev prevout nTimeTx
           hashProofOfStake0 =
         Some (Inr (\<not> (ucast w * SetCompact nBits
                         < Hash env (kernel_stream m (ucast (headerGetBlockTime blockFrom))
                                       nTxPrevOffset (headerGetBlockTime blockFrom)
                                       (prevout_n prevout) nTimeTx)),
                    Hash env (kernel_stream m (ucast (headerGetBlockTime blockFrom))
                                nTxPrevOffset (headerGetBlockTime blockFrom)
                                (prevout_n prevout) nTimeTx)))"
  using assms by (simp add: CheckStakeKernelHash_def Let_def)

text \<open>When the kernel stake modifier is not resolved the stake is rejected unhashed.\<close>

lemma CheckStakeKernelHash_unresolved:
  assumes "coin_day_weight env (nValue (vout txPrev ! unat (prevout_n prevout)))
           (if nStakeMaxAge (Params env) - nStakeMinAge (Params env)
                 <s ucast nTimeTx - headerGetBlockTime blockFrom
            then nStakeMaxAge (Params env) - nStakeMinAge (Params env)
            else ucast nTimeTx - headerGetBlockTime blockFrom) = Inr w"
    and "unat (prevout_n prevout) < length (vout txPrev)"
    and "GetKernelStakeModifier env pindexPrev (headerGetHash blockFrom) nTimeTx 0 0 False
           = Some (Inr (False, m, h, t))"
  shows "CheckStakeKernelHash env nBits pindexPrev blockFrom nTxPrevOffset txPrev prevout nTimeTx
           hashProofOfStake0 = Some (Inr (False, hashProofOfStake0))"
  using assms by (simp add: CheckStakeKernelHash_def Let_def)

text \<open>
  C1, as the source has it. For an invocation that passes the three gates,
  with a positive \<open>COIN\<close> and the kernel stake modifier resolved to \<open>m\<close>, the
  returned \<open>hashProofOfStake\<close> is the hash of the stream of \<open>m\<close> in 8 bytes,
  the time of \<open>blockFrom\<close> truncated to 4 bytes, \<open>nTxPrevOffset\<close> in 4 bytes,
  the time of \<open>blockFrom\<close> again, as the \<open>int64_t\<close> it is, in 8 bytes,
  \<open>prevout.n\<close> in 4 bytes and \<open>nTimeTx\<close> in 4 bytes, all little-endian: 32
  bytes.
\<close>

theorem CheckStakeKernelHash_preimage:
  assumes "\<not> (ucast nTimeTx :: int64) <s headerGetBlockTime blockFrom"
    and "\<not> (ucast nTimeTx :: int64)
           <s ucast (ucast (headerGetBlockTime blockFrom) :: uint32) + nStakeMinAge (Params env)"
    and "unat (prevout_n prevout) < length (vout txPrev)"
    and "\<not> nValue (vout txPrev ! unat (prevout_n prevout)) <s nMinimumStakeValue (Params env)"
    and "0 <s COIN env"
    and "GetKernelStakeModifier env pindexPrev (headerGetHash blockFrom) nTimeTx 0 0 False
           = Some (Inr (True, m, h, t))"
  shows "\<exists>ok. CheckStakeKernelHash env nBits pindexPrev blockFrom nTxPrevOffset txPrev prevout
                nTimeTx hashProofOfStake0 =
              Some (Inr (ok,
                Hash env (ser_uint64 m
                          @ ser_uint32 (ucast (headerGetBlockTime blockFrom))
                          @ ser_uint32 nTxPrevOffset
                          @ ser_int64 (headerGetBlockTime blockFrom)
                          @ ser_uint32 (prevout_n prevout)
                          @ ser_uint32 nTimeTx)))
       \<and> length (ser_uint64 m
                  @ ser_uint32 (ucast (headerGetBlockTime blockFrom))
                  @ ser_uint32 nTxPrevOffset
                  @ ser_int64 (headerGetBlockTime blockFrom)
                  @ ser_uint32 (prevout_n prevout)
                  @ ser_uint32 nTimeTx) = 32"
proof -
  obtain w where "coin_day_weight env (nValue (vout txPrev ! unat (prevout_n prevout)))
           (if nStakeMaxAge (Params env) - nStakeMinAge (Params env)
                 <s ucast nTimeTx - headerGetBlockTime blockFrom
            then nStakeMaxAge (Params env) - nStakeMinAge (Params env)
            else ucast nTimeTx - headerGetBlockTime blockFrom) = Inr w"
    using coin_day_weight_returns [OF assms(5)] by blast
  from CheckStakeKernelHash_past_gates [OF assms(1-4) this assms(6)]
  show ?thesis
    using length_kernel_stream [of m "ucast (headerGetBlockTime blockFrom)" nTxPrevOffset
        "headerGetBlockTime blockFrom" "prevout_n prevout" nTimeTx]
    by (simp add: kernel_stream_def)
qed

lemma chain_env_modifier:
  "GetKernelStakeModifier chain_env blkG (headerGetHash example_header) 6000 0 0 False
     = Some (Inr (True, 0x1234, 1, 5000))"
  by code_simp

lemma chain_env_gates:
  "\<not> (ucast (6000 :: uint32) :: int64) <s headerGetBlockTime example_header"
  "\<not> (ucast (6000 :: uint32) :: int64)
       <s ucast (ucast (headerGetBlockTime example_header) :: uint32)
          + nStakeMinAge (Params chain_env)"
  "unat (prevout_n example_prevout) < length (vout example_txPrev)"
  "\<not> nValue (vout example_txPrev ! unat (prevout_n example_prevout))
       <s nMinimumStakeValue (Params chain_env)"
  "0 <s COIN chain_env"
  by code_simp+

lemma chain_env_kernel_hash:
  "CheckStakeKernelHash chain_env 0x1d00ffff blkG example_header 81 example_txPrev
     example_prevout 6000 0 = Some (Inr (True, 32))"
  by code_simp

theorem CheckStakeKernelHash_preimage_witness:
  "\<not> (ucast (6000 :: uint32) :: int64) <s headerGetBlockTime example_header
   \<and> \<not> (ucast (6000 :: uint32) :: int64)
         <s ucast (ucast (headerGetBlockTime example_header) :: uint32)
            + nStakeMinAge (Params chain_env)
   \<and> unat (prevout_n example_prevout) < length (vout example_txPrev)
   \<and> \<not> nValue (vout example_txPrev ! unat (prevout_n example_prevout))
         <s nMinimumStakeValue (Params chain_env)
   \<and> 0 <s COIN chain_env
   \<and> GetKernelStakeModifier chain_env blkG (headerGetHash example_header) 6000 0 0 False
       = Some (Inr (True, 0x1234, 1, 5000))
   \<and> Hash chain_env (ser_uint64 0x1234
                      @ ser_uint32 (ucast (headerGetBlockTime example_header))
                      @ ser_uint32 81
                      @ ser_int64 (headerGetBlockTime example_header)
                      @ ser_uint32 (prevout_n example_prevout)
                      @ ser_uint32 6000) = 32"
proof -
  from CheckStakeKernelHash_preimage [OF chain_env_gates chain_env_modifier,
      of "0x1d00ffff" 81 0]
  have "Hash chain_env (ser_uint64 0x1234
                      @ ser_uint32 (ucast (headerGetBlockTime example_header))
                      @ ser_uint32 81
                      @ ser_int64 (headerGetBlockTime example_header)
                      @ ser_uint32 (prevout_n example_prevout)
                      @ ser_uint32 6000) = 32"
    by (simp add: chain_env_kernel_hash)
  then show ?thesis
    using chain_env_gates chain_env_modifier by blast
qed

text \<open>
  The stream that is hashed has 32 bytes, the specified preimage 28: on the
  example stake, whose hash is the length of the stream, the returned hash is
  32 and the hash of the specified preimage is 28.
\<close>

theorem CheckStakeKernelHash_preimage_counterexample:
  "CheckStakeKernelHash chain_env 0x1d00ffff blkG example_header 81 example_txPrev
     example_prevout 6000 0 = Some (Inr (True, 32))
   \<and> length (spec_kernel_preimage 0x1234 1000 81 1000 0 6000) = 28
   \<and> Hash chain_env (spec_kernel_preimage 0x1234 1000 81 1000 0 6000) = 28
   \<and> kernel_stream 0x1234 1000 81 1000 0 6000
       = [0x34, 0x12, 0, 0, 0, 0, 0, 0,  0xe8, 0x03, 0, 0,  81, 0, 0, 0,
          0xe8, 0x03, 0, 0, 0, 0, 0, 0,  0, 0, 0, 0,  0x70, 0x17, 0, 0]
   \<and> spec_kernel_preimage 0x1234 1000 81 1000 0 6000
       = [0x34, 0x12, 0, 0, 0, 0, 0, 0,  0xe8, 0x03, 0, 0,  81, 0, 0, 0,
          0xe8, 0x03, 0, 0,  0, 0, 0, 0,  0x70, 0x17, 0, 0]"
  by code_simp

subsection \<open>The target\<close>








end
